theory Spec2Isabelle
  imports Complex_Main "HOL-Library.Sublist" "HOL-Library.Multiset"
begin

section \<open>JavaScript strings\<close>

text \<open>
  A JavaScript string is modelled as a \<^typ>\<open>string\<close>: the list of its code units, each
  below 256 (the Latin-1 range). On that range \<open>toLowerCase\<close> works unit by unit: it
  moves \<open>A\<close>..\<open>Z\<close> and the accented capitals U+00C0..U+00DE (U+00D7, the multiplication
  sign, apart) up by 32 and leaves every other unit alone.
\<close>

definition lower_unit :: "char \<Rightarrow> char" where
  "lower_unit c =
     (let n = (of_char c :: nat)
      in if (65 \<le> n \<and> n \<le> 90) \<or> (192 \<le> n \<and> n \<le> 222 \<and> n \<noteq> 215)
         then char_of (n + 32) else c)"

definition toLowerCase :: "string \<Rightarrow> string" where
  "toLowerCase s = map lower_unit s"

text \<open>White space and line terminators of ECMAScript that lie below 256.\<close>

definition isWhiteSpace :: "char \<Rightarrow> bool" where
  "isWhiteSpace c = ((of_char c :: nat) \<in> {9, 10, 11, 12, 13, 32, 160})"

definition trim :: "string \<Rightarrow> string" where
  "trim s = rev (dropWhile isWhiteSpace (rev (dropWhile isWhiteSpace s)))"

definition startsWith :: "string \<Rightarrow> string \<Rightarrow> bool" where
  "startsWith s p = prefix p s"

definition js_includes :: "string \<Rightarrow> string \<Rightarrow> bool" where
  "js_includes s q = sublist q s"

section \<open>The data model\<close>

record bookmark =
  b_id :: string
  b_name :: string
  b_url :: string
  b_description :: string

record category =
  c_id :: string
  c_name :: string
  c_color :: string
  c_bookmarks :: "bookmark list"

section \<open>Arrays\<close>

text \<open>
  \<open>xs.find(p)\<close> is \<^const>\<open>List.find\<close>. The source then mutates the object it found in
  place, which changes the first element of the array that satisfies \<open>p\<close>;
  \<open>xs.splice(xs.findIndex(p), 1)\<close> removes that element.
\<close>

fun update_first :: "('a \<Rightarrow> bool) \<Rightarrow> ('a \<Rightarrow> 'a) \<Rightarrow> 'a list \<Rightarrow> 'a list" where
  "update_first p f [] = []"
| "update_first p f (x # xs) = (if p x then f x # xs else x # update_first p f xs)"

fun remove_first :: "('a \<Rightarrow> bool) \<Rightarrow> 'a list \<Rightarrow> 'a list" where
  "remove_first p [] = []"
| "remove_first p (x # xs) = (if p x then xs else x # remove_first p xs)"

section \<open>The browser's localStorage and the Firestore database\<close>

text \<open>
  \<open>localStorage\<close> maps keys to strings. The values the program writes with
  \<open>JSON.stringify\<close> and reads back with \<open>JSON.parse\<close> are kept as the value that was
  serialised, in \<open>ls_trees\<close>; every other entry is kept as its text, in \<open>ls_items\<close>.
  The keys of the two groups never meet: the serialised ones start with
  \<open>bookmarkData_\<close>, the others are \<open>currentUser\<close>, \<open>userId\<close> and \<open>lastLocalChange\<close>.
  Calls of \<open>localStorage\<close> are taken to succeed.
\<close>

definition getItem :: "'k \<Rightarrow> ('k \<times> 'v) list \<Rightarrow> 'v option" where
  "getItem k items = map_of items k"

definition setItem :: "'k \<Rightarrow> 'v \<Rightarrow> ('k \<times> 'v) list \<Rightarrow> ('k \<times> 'v) list" where
  "setItem k v items = (k, v) # filter (\<lambda>e. fst e \<noteq> k) items"

record user_doc =
  username :: string
  passwordHash :: string
  createdAt :: int

text \<open>
  A document of the collection \<open>bookmarks\<close>. \<open>lastModified\<close> is a time in
  milliseconds, an integer as \<open>Date.now()\<close> gives it, and \<open>None\<close> when the field is
  missing.
\<close>

record 'a cloud_doc =
  doc_categories :: 'a
  lastModified :: "int option"

record 'a firestore =
  users :: "(string \<times> user_doc) list"
  bookmarks :: "(string \<times> 'a cloud_doc) list"

text \<open>
  The state of the network-backed application: whether the page holds the handle
  \<open>window.firebaseDB\<close>, the content of the database \<open>firestore\<close> (which is there
  whether or not this page has a handle to it), \<open>localStorage\<close>, and the fields of
  \<open>AuthManager\<close>, \<open>FirebaseSyncManager\<close> and \<open>BookmarkManager\<close>. The type \<open>'a\<close> is the
  type of the value held in \<open>this.categories\<close>. \<open>unsubscribe\<close> is \<open>True\<close> when the field holds the
  detach function of an attached listener. \<open>issued\<close> lists the document writes that
  \<open>saveData\<close> started through \<open>uploadToCloud()\<close> without awaiting them: the user, the
  tree and the \<open>lastModified\<close> of each.
\<close>

record 'a app =
  firebaseDB :: bool
  firestore :: "'a firestore"
  ls_items :: "(string \<times> string) list"
  ls_trees :: "(string \<times> 'a) list"
  currentUser :: "string option"
  userId :: "string option"
  syncEnabled :: bool
  lastSyncTime :: "int option"
  unsubscribe :: bool
  categories :: 'a
  issued :: "(string \<times> 'a \<times> int) list"

text \<open>
  Truthiness of a value that is a string, \<open>null\<close> or \<open>undefined\<close>, and the string such
  a value stands for where the source writes \<open>value || ''\<close> or has tested it.
\<close>

fun truthy :: "string option \<Rightarrow> bool" where
  "truthy None = False"
| "truthy (Some s) = (s \<noteq> [])"

fun or_empty :: "string option \<Rightarrow> string" where
  "or_empty None = []"
| "or_empty (Some s) = s"

section \<open>Numbers as text\<close>

text \<open>\<open>Date.now().toString()\<close>: the decimal digits of an integer.\<close>

fun digits :: "nat \<Rightarrow> string" where
  "digits n = (if n < 10 then [char_of (48 + n)] else digits (n div 10) @ [char_of (48 + n mod 10)])"

declare digits.simps [simp del]

definition toString :: "int \<Rightarrow> string" where
  "toString i = (if i < 0 then CHR ''-'' # digits (nat (- i)) else digits (nat i))"

text \<open>
  The numbers \<open>parseInt\<close> returns: \<open>NaN\<close>, the two infinities, and the doubles that
  are integers, each by its value.
\<close>

datatype number = NaN | PosInfinity | NegInfinity | Num int

fun negate :: "number \<Rightarrow> number" where
  "negate NaN = NaN"
| "negate PosInfinity = NegInfinity"
| "negate NegInfinity = PosInfinity"
| "negate (Num i) = Num (- i)"

text \<open>
  The double nearest to a natural number, ties to the even mantissa: below \<open>2^53\<close>
  the number itself; above, the 53 leading bits \<open>q\<close> rounded by the rest \<open>r\<close>; and
  \<open>Infinity\<close> from \<open>2^1024\<close> on.
\<close>

fun bit_length :: "nat \<Rightarrow> nat" where
  "bit_length n = (if n = 0 then 0 else Suc (bit_length (n div 2)))"

declare bit_length.simps [simp del]

definition to_double :: "nat \<Rightarrow> number" where
  "to_double n =
     (if n < 2 ^ 53 then Num (int n)
      else
        (let e = bit_length n - 53;
             q = n div 2 ^ e;
             r = n mod 2 ^ e;
             half = 2 ^ (e - 1);
             q' = (if half < r \<or> (r = half \<and> odd q) then q + 1 else q);
             v = q' * 2 ^ e
         in if 2 ^ 1024 \<le> v then PosInfinity else Num (int v)))"

text \<open>
  \<open>parseInt(s)\<close> with no radix: leading white space is skipped, a sign is read, a
  prefix \<open>0x\<close> or \<open>0X\<close> selects base 16, and the longest run of digits of the base is
  read; with no digit the result is \<open>NaN\<close>, else the double nearest to the value of the
  run.
\<close>

definition digit_value :: "char \<Rightarrow> nat option" where
  "digit_value c =
     (let n = (of_char c :: nat)
      in if 48 \<le> n \<and> n \<le> 57 then Some (n - 48)
         else if 97 \<le> n \<and> n \<le> 122 then Some (n - 87)
         else if 65 \<le> n \<and> n \<le> 90 then Some (n - 55)
         else None)"

definition is_digit :: "nat \<Rightarrow> char \<Rightarrow> bool" where
  "is_digit radix c = (case digit_value c of None \<Rightarrow> False | Some d \<Rightarrow> d < radix)"

definition digits_value :: "nat \<Rightarrow> string \<Rightarrow> nat" where
  "digits_value radix s =
     foldl (\<lambda>a c. a * radix + (case digit_value c of None \<Rightarrow> 0 | Some d \<Rightarrow> d)) 0 s"

definition parse_magnitude :: "string \<Rightarrow> number" where
  "parse_magnitude s =
     (let (radix, body) =
            (if prefix ''0x'' s \<or> prefix ''0X'' s then (16, drop 2 s) else (10, s));
          ds = takeWhile (is_digit radix) body
      in if ds = [] then NaN else to_double (digits_value radix ds))"

definition parseInt :: "string \<Rightarrow> number" where
  "parseInt s =
     (case dropWhile isWhiteSpace s of
        [] \<Rightarrow> NaN
      | c # cs \<Rightarrow>
          if c = CHR ''-'' then negate (parse_magnitude cs)
          else if c = CHR ''+'' then parse_magnitude cs
          else parse_magnitude (c # cs))"

text \<open>\<open>c > x\<close> for an integer \<open>c\<close> and a number \<open>x\<close>: false when \<open>x\<close> is \<open>NaN\<close>.\<close>

fun greater_than :: "int \<Rightarrow> number \<Rightarrow> bool" where
  "greater_than c NaN = False"
| "greater_than c PosInfinity = False"
| "greater_than c NegInfinity = True"
| "greater_than c (Num x) = (x < c)"

section \<open>BookmarkManager\<close>

text \<open>
  \<open>saveData()\<close>. \<open>t\<close> is the \<open>Date.now()\<close> written to \<open>lastLocalChange\<close>. When syncing is
  enabled \<open>uploadToCloud()\<close> is called and not awaited: it returns at once without a
  database handle or a user id, and otherwise starts the write of the present tree
  with \<open>lastModified = tu\<close>, its own \<open>Date.now()\<close>. What happens when that write
  completes (\<open>lastSyncTime\<close> is set) belongs to a later task and is not part of
  \<open>saveData\<close>. The \<open>catch\<close> of \<open>saveData\<close> is entered only when \<open>localStorage\<close>
  throws, so it has no branch here.
\<close>

definition start_upload :: "int \<Rightarrow> 'a app \<Rightarrow> 'a app" where
  "start_upload tu st =
     (if \<not> firebaseDB st \<or> \<not> truthy (userId st) then st
      else st\<lparr>issued := issued st @ [(or_empty (userId st), categories st, tu)]\<rparr>)"

definition saveData :: "int \<Rightarrow> int \<Rightarrow> 'a app \<Rightarrow> 'a app" where
  "saveData t tu st =
     (let uid = (case getItem ''userId'' (ls_items st) of None \<Rightarrow> ''null'' | Some u \<Rightarrow> u);
          st1 = st\<lparr>ls_trees := setItem (''bookmarkData_'' @ uid) (categories st) (ls_trees st)\<rparr>;
          st2 = st1\<lparr>ls_items := setItem ''lastLocalChange'' (toString t) (ls_items st1)\<rparr>
      in if syncEnabled st2 then start_upload tu st2 else st2)"

text \<open>
  The identifiers come from \<open>generateId()\<close>, which reads the clock and the random
  generator: the new identifier is the argument \<open>new_id\<close>.
\<close>

definition addCategory ::
  "string \<Rightarrow> string \<Rightarrow> string \<Rightarrow> int \<Rightarrow> int \<Rightarrow> category list app \<Rightarrow> category \<times> category list app" where
  "addCategory new_id name color t tu st =
     (let category = \<lparr>c_id = new_id, c_name = name, c_color = color, c_bookmarks = []\<rparr>
      in (category, saveData t tu (st\<lparr>categories := categories st @ [category]\<rparr>)))"

definition updateCategory ::
  "string \<Rightarrow> string \<Rightarrow> string \<Rightarrow> int \<Rightarrow> int \<Rightarrow> category list app \<Rightarrow> bool \<times> category list app" where
  "updateCategory categoryId name color t tu st =
     (case find (\<lambda>c. c_id c = categoryId) (categories st) of
        Some category \<Rightarrow>
          (True, saveData t tu (st\<lparr>categories :=
             update_first (\<lambda>c. c_id c = categoryId) (\<lambda>c. c\<lparr>c_name := name, c_color := color\<rparr>)
               (categories st)\<rparr>))
      | None \<Rightarrow> (False, st))"

definition deleteCategory ::
  "string \<Rightarrow> int \<Rightarrow> int \<Rightarrow> category list app \<Rightarrow> bool \<times> category list app" where
  "deleteCategory categoryId t tu st =
     (case find (\<lambda>c. c_id c = categoryId) (categories st) of
        Some category \<Rightarrow>
          (True, saveData t tu (st\<lparr>categories :=
             remove_first (\<lambda>c. c_id c = categoryId) (categories st)\<rparr>))
      | None \<Rightarrow> (False, st))"

text \<open>The normalisation of the URL that \<open>addBookmark\<close> and \<open>updateBookmark\<close> share.\<close>

definition normalize_url :: "string \<Rightarrow> string" where
  "normalize_url url =
     (if \<not> startsWith url ''http://'' \<and> \<not> startsWith url ''https://''
      then ''https://'' @ url else url)"

definition addBookmark ::
  "string \<Rightarrow> string \<Rightarrow> string \<Rightarrow> string \<Rightarrow> string option \<Rightarrow> int \<Rightarrow> int \<Rightarrow> category list app
     \<Rightarrow> bookmark option \<times> category list app" where
  "addBookmark new_id categoryId name url description t tu st =
     (case find (\<lambda>c. c_id c = categoryId) (categories st) of
        Some category \<Rightarrow>
          (let bookmark = \<lparr>b_id = new_id, b_name = name, b_url = normalize_url url,
                           b_description = or_empty description\<rparr>
           in (Some bookmark, saveData t tu (st\<lparr>categories :=
                 update_first (\<lambda>c. c_id c = categoryId)
                   (\<lambda>c. c\<lparr>c_bookmarks := c_bookmarks c @ [bookmark]\<rparr>) (categories st)\<rparr>)))
      | None \<Rightarrow> (None, st))"

definition updateBookmark ::
  "string \<Rightarrow> string \<Rightarrow> string \<Rightarrow> string \<Rightarrow> string option \<Rightarrow> int \<Rightarrow> int \<Rightarrow> category list app
     \<Rightarrow> bool \<times> category list app" where
  "updateBookmark categoryId bookmarkId name url description t tu st =
     (case find (\<lambda>c. c_id c = categoryId) (categories st) of
        Some category \<Rightarrow>
          (case find (\<lambda>b. b_id b = bookmarkId) (c_bookmarks category) of
             Some bookmark \<Rightarrow>
               (True, saveData t tu (st\<lparr>categories :=
                  update_first (\<lambda>c. c_id c = categoryId)
                    (\<lambda>c. c\<lparr>c_bookmarks := update_first (\<lambda>b. b_id b = bookmarkId)
                       (\<lambda>b. b\<lparr>b_name := name, b_url := normalize_url url,
                               b_description := or_empty description\<rparr>) (c_bookmarks c)\<rparr>)
                    (categories st)\<rparr>))
           | None \<Rightarrow> (False, st))
      | None \<Rightarrow> (False, st))"

definition deleteBookmark ::
  "string \<Rightarrow> string \<Rightarrow> int \<Rightarrow> int \<Rightarrow> category list app \<Rightarrow> bool \<times> category list app" where
  "deleteBookmark categoryId bookmarkId t tu st =
     (case find (\<lambda>c. c_id c = categoryId) (categories st) of
        Some category \<Rightarrow>
          (case find (\<lambda>b. b_id b = bookmarkId) (c_bookmarks category) of
             Some bookmark \<Rightarrow>
               (True, saveData t tu (st\<lparr>categories :=
                  update_first (\<lambda>c. c_id c = categoryId)
                    (\<lambda>c. c\<lparr>c_bookmarks := remove_first (\<lambda>b. b_id b = bookmarkId) (c_bookmarks c)\<rparr>)
                    (categories st)\<rparr>))
           | None \<Rightarrow> (False, st))
      | None \<Rightarrow> (False, st))"

text \<open>
  \<open>searchBookmarks(query)\<close>. The method only reads; it is given the state and returns
  it, so that the absence of a write is a statement about the result.
\<close>

definition matches :: "string \<Rightarrow> bookmark \<Rightarrow> bool" where
  "matches lowerQuery bookmark =
     (js_includes (toLowerCase (b_name bookmark)) lowerQuery
      \<or> js_includes (toLowerCase (b_url bookmark)) lowerQuery
      \<or> (b_description bookmark \<noteq> [] \<and> js_includes (toLowerCase (b_description bookmark)) lowerQuery))"

definition searchBookmarks :: "string \<Rightarrow> category list app \<Rightarrow> category list \<times> category list app" where
  "searchBookmarks query st =
     (if trim query = [] then (categories st, st)
      else
        (let lowerQuery = toLowerCase query
         in (filter (\<lambda>category. length (c_bookmarks category) > 0)
               (map (\<lambda>category. category\<lparr>c_bookmarks := filter (matches lowerQuery) (c_bookmarks category)\<rparr>)
                  (categories st)),
             st)))"

section \<open>FirebaseSyncManager\<close>

text \<open>
  The promises of Firestore are modelled by their outcome. \<open>uploadToCloud()\<close>, when it
  is awaited, is given \<open>push_ok\<close>: whether \<open>firebaseSetDoc\<close> resolves or rejects; a
  rejection is logged and thrown again, here \<open>Inl ()\<close>. \<open>t1\<close> and \<open>t2\<close> are the two
  readings of \<open>Date.now()\<close>. An awaited call is one step of the model: what other tasks
  do while the promise is pending is outside it.
\<close>

definition uploadToCloud :: "bool \<Rightarrow> int \<Rightarrow> int \<Rightarrow> 'a app \<Rightarrow> unit + 'a app" where
  "uploadToCloud push_ok t1 t2 st =
     (if \<not> firebaseDB st \<or> \<not> truthy (userId st) then Inr st
      else if push_ok
      then Inr (st\<lparr>firestore := (firestore st)\<lparr>bookmarks :=
                     setItem (or_empty (userId st))
                       \<lparr>doc_categories = categories st, lastModified = Some t1\<rparr>
                       (bookmarks (firestore st))\<rparr>,
                   lastSyncTime := Some t2\<rparr>)
      else Inl ())"

definition listenToChanges :: "'a app \<Rightarrow> 'a app" where
  "listenToChanges st =
     (if \<not> firebaseDB st \<or> unsubscribe st \<or> \<not> truthy (userId st) then st
      else st\<lparr>unsubscribe := True\<rparr>)"

definition enableSync :: "bool \<Rightarrow> int \<Rightarrow> int \<Rightarrow> 'a app \<Rightarrow> bool \<times> 'a app" where
  "enableSync push_ok t1 t2 st =
     (if \<not> firebaseDB st \<or> \<not> truthy (userId st) then (False, st)
      else
        (case uploadToCloud push_ok t1 t2 (st\<lparr>syncEnabled := True\<rparr>) of
           Inr st1 \<Rightarrow> (True, listenToChanges st1)
         | Inl e \<Rightarrow> (False, st\<lparr>syncEnabled := True\<rparr>\<lparr>syncEnabled := False\<rparr>)))"

text \<open>
  The callback that \<open>listenToChanges\<close> gives to \<open>firebaseOnSnapshot\<close>. Its argument is
  the snapshot: \<open>None\<close> when the document does not exist, else its data.
  \<open>cloudTime\<close> is \<open>data.lastModified || 0\<close>; \<open>this.lastSyncTime\<close> enters the comparison
  as a number, \<open>null\<close> as 0; \<open>localTime\<close> is
  \<open>parseInt(localStorage.getItem('lastLocalChange') || '0')\<close>. The calls to \<open>window.ui\<close>
  only redraw and are left out.
\<close>

definition onSnapshot :: "'a cloud_doc option \<Rightarrow> int \<Rightarrow> int \<Rightarrow> 'a app \<Rightarrow> 'a app" where
  "onSnapshot doc t tu st =
     (case doc of
        None \<Rightarrow> st
      | Some data \<Rightarrow>
          (let cloudTime = (case lastModified data of None \<Rightarrow> 0 | Some m \<Rightarrow> m)
           in if cloudTime \<le> (case lastSyncTime st of None \<Rightarrow> 0 | Some s \<Rightarrow> s) then st
              else
                (let localTime =
                       parseInt (case getItem ''lastLocalChange'' (ls_items st) of
                                   None \<Rightarrow> ''0''
                                 | Some s \<Rightarrow> if s = [] then ''0'' else s)
                 in if greater_than cloudTime localTime
                    then saveData t tu (st\<lparr>categories := doc_categories data\<rparr>)
                    else st)))"

section \<open>AuthManager\<close>

text \<open>
  The source throws \<open>new Error(message)\<close> with one of these texts:
  \<^item> \<open>Msg_enter_credentials\<close>: "enter a user name and a password";
  \<^item> \<open>Msg_username_min3\<close>: "the user name needs 3 characters or more";
  \<^item> \<open>Msg_password_min4\<close>: "the password needs 4 characters or more";
  \<^item> \<open>Msg_username_taken\<close>: "this user name is already in use";
  \<^item> \<open>Msg_wrong_credentials\<close>: "the user name or the password is not right", the text of
    \<open>AuthManager.login\<close>;
  \<^item> \<open>Msg_wrong_credentials_simple\<close>: "the user name or the password is wrong", the text
    of \<open>SimpleAuthManager.login\<close>.
\<close>

datatype message =
    Msg_enter_credentials
  | Msg_username_min3
  | Msg_password_min4
  | Msg_username_taken
  | Msg_wrong_credentials
  | Msg_wrong_credentials_simple

datatype error = Error message

text \<open>
  The kinds of error of the specification, by what the message reports: missing or too
  short input, a user name already registered, bad credentials.
\<close>

datatype error_kind = ValidationError | ConflictError | AuthError

fun kind :: "error \<Rightarrow> error_kind" where
  "kind (Error Msg_enter_credentials) = ValidationError"
| "kind (Error Msg_username_min3) = ValidationError"
| "kind (Error Msg_password_min4) = ValidationError"
| "kind (Error Msg_username_taken) = ConflictError"
| "kind (Error Msg_wrong_credentials) = AuthError"
| "kind (Error Msg_wrong_credentials_simple) = AuthError"

text \<open>\<open>'user_' + username.toLowerCase().replace(/[^a-z0-9]/g, '_')\<close>\<close>

definition replace_unit :: "char \<Rightarrow> char" where
  "replace_unit c =
     (let n = (of_char c :: nat)
      in if (97 \<le> n \<and> n \<le> 122) \<or> (48 \<le> n \<and> n \<le> 57) then c else CHR ''_'')"

definition generateUserId :: "string \<Rightarrow> string" where
  "generateUserId name = ''user_'' @ map replace_unit (toLowerCase name)"

text \<open>
  \<open>hashPassword\<close> is the SHA-256 of \<open>crypto.subtle\<close>, in hexadecimal: the functions
  below take it as the argument \<open>hash\<close>. The calls of Firestore in \<open>register\<close> and
  \<open>login\<close> are taken to resolve. A call returns its outcome, \<open>Inl\<close> the error thrown,
  and the state it leaves.
\<close>

definition store_session :: "string \<Rightarrow> string \<Rightarrow> 'a app \<Rightarrow> 'a app" where
  "store_session name uid st =
     st\<lparr>ls_items := setItem ''userId'' uid (setItem ''currentUser'' name (ls_items st)),
        currentUser := Some name\<rparr>"

definition register ::
  "(string \<Rightarrow> string) \<Rightarrow> string \<Rightarrow> string \<Rightarrow> int \<Rightarrow> 'a app \<Rightarrow> (error + string) \<times> 'a app" where
  "register hash name password t st =
     (if name = [] \<or> password = [] then (Inl (Error Msg_enter_credentials), st)
      else if length name < 3 then (Inl (Error Msg_username_min3), st)
      else if length password < 4 then (Inl (Error Msg_password_min4), st)
      else
        (let uid = generateUserId name; pwHash = hash password
         in if firebaseDB st
            then
              (case getItem uid (users (firestore st)) of
                 Some userData \<Rightarrow> (Inl (Error Msg_username_taken), st)
               | None \<Rightarrow>
                   (Inr uid, store_session name uid
                     (st\<lparr>firestore := (firestore st)\<lparr>users :=
                        setItem uid \<lparr>username = name, passwordHash = pwHash, createdAt = t\<rparr>
                          (users (firestore st))\<rparr>\<rparr>)))
            else (Inr uid, store_session name uid st)))"

definition login ::
  "(string \<Rightarrow> string) \<Rightarrow> string \<Rightarrow> string \<Rightarrow> 'a app \<Rightarrow> (error + string) \<times> 'a app" where
  "login hash name password st =
     (if name = [] \<or> password = [] then (Inl (Error Msg_enter_credentials), st)
      else
        (let uid = generateUserId name; pwHash = hash password
         in if firebaseDB st
            then
              (case getItem uid (users (firestore st)) of
                 None \<Rightarrow> (Inl (Error Msg_wrong_credentials), st)
               | Some userData \<Rightarrow>
                   if passwordHash userData \<noteq> pwHash then (Inl (Error Msg_wrong_credentials), st)
                   else (Inr uid, store_session name uid st))
            else (Inr uid, store_session name uid st)))"

section \<open>The variant without Firebase: SimpleAuthManager and its BookmarkManager\<close>

text \<open>
  The state of the second application: \<open>localStorage\<close> and the fields of its two
  classes. \<open>s_items\<close> holds the text entries (\<open>currentUserId\<close>), \<open>s_auth\<close> the entries
  \<open>auth_<userId>\<close>, each the serialised \<open>userData\<close>, and \<open>s_trees\<close> the entries
  \<open>bookmarkData_<userId>\<close>, each the serialised \<open>this.data\<close>. The type \<open>'d\<close> is the type
  of the value held in \<open>this.data\<close>; for the operations on categories it is the array
  \<open>this.data.categories\<close>.
\<close>

record 'd simple_app =
  s_items :: "(string \<times> string) list"
  s_auth :: "(string \<times> user_doc) list"
  s_trees :: "(string \<times> 'd) list"
  s_currentUser :: "string option"
  s_data :: 'd

definition simple_register ::
  "(string \<Rightarrow> string) \<Rightarrow> string \<Rightarrow> string \<Rightarrow> int \<Rightarrow> 'd simple_app \<Rightarrow> (error + bool) \<times> 'd simple_app" where
  "simple_register hash name password t st =
     (if name = [] \<or> password = [] then (Inl (Error Msg_enter_credentials), st)
      else if length name < 3 then (Inl (Error Msg_username_min3), st)
      else if length password < 4 then (Inl (Error Msg_password_min4), st)
      else
        (let uid = generateUserId name; pwHash = hash password
         in case getItem (''auth_'' @ uid) (s_auth st) of
              Some existingUser \<Rightarrow> (Inl (Error Msg_username_taken), st)
            | None \<Rightarrow>
                (Inr True,
                 st\<lparr>s_auth := setItem (''auth_'' @ uid)
                                 \<lparr>username = name, passwordHash = pwHash, createdAt = t\<rparr> (s_auth st),
                    s_items := setItem ''currentUserId'' uid (s_items st),
                    s_currentUser := Some name\<rparr>)))"

definition simple_login ::
  "(string \<Rightarrow> string) \<Rightarrow> string \<Rightarrow> string \<Rightarrow> 'd simple_app \<Rightarrow> (error + bool) \<times> 'd simple_app" where
  "simple_login hash name password st =
     (if name = [] \<or> password = [] then (Inl (Error Msg_enter_credentials), st)
      else
        (let uid = generateUserId name
         in case getItem (''auth_'' @ uid) (s_auth st) of
              None \<Rightarrow> (Inl (Error Msg_wrong_credentials_simple), st)
            | Some userData \<Rightarrow>
                if hash password \<noteq> passwordHash userData
                then (Inl (Error Msg_wrong_credentials_simple), st)
                else (Inr True,
                      st\<lparr>s_items := setItem ''currentUserId'' uid (s_items st),
                         s_currentUser := Some name\<rparr>)))"

definition simple_saveData :: "'d simple_app \<Rightarrow> 'd simple_app" where
  "simple_saveData st =
     (case getItem ''currentUserId'' (s_items st) of
        None \<Rightarrow> st
      | Some uid \<Rightarrow>
          if uid = [] then st
          else st\<lparr>s_trees := setItem (''bookmarkData_'' @ uid) (s_data st) (s_trees st)\<rparr>)"

definition simple_addBookmark ::
  "string \<Rightarrow> string \<Rightarrow> string \<Rightarrow> string \<Rightarrow> string option \<Rightarrow> category list simple_app
     \<Rightarrow> bookmark option \<times> category list simple_app" where
  "simple_addBookmark new_id categoryId name url description st =
     (case find (\<lambda>c. c_id c = categoryId) (s_data st) of
        Some category \<Rightarrow>
          (let bookmark = \<lparr>b_id = new_id, b_name = name, b_url = url,
                           b_description = or_empty description\<rparr>
           in (Some bookmark, simple_saveData (st\<lparr>s_data :=
                 update_first (\<lambda>c. c_id c = categoryId)
                   (\<lambda>c. c\<lparr>c_bookmarks := c_bookmarks c @ [bookmark]\<rparr>) (s_data st)\<rparr>)))
      | None \<Rightarrow> (None, st))"

section \<open>Import\<close>

text \<open>
  A value that \<open>JSON.parse\<close> returns. A number is the value of the double, the
  properties of an object are listed once each.
\<close>

datatype json =
    JNull
  | JBool bool
  | JNum rat
  | JStr string
  | JArr "json list"
  | JObj "(string \<times> json) list"

text \<open>
  \<open>v.key\<close> for \<open>key\<close> one of \<open>name\<close> and \<open>bookmarks\<close>: a \<open>TypeError\<close> on \<open>null\<close> (\<open>None\<close>),
  else the property, \<open>undefined\<close> (\<open>Some None\<close>) when the value has none of that name,
  as is the case of every boolean, number, string and array.
\<close>

fun property :: "string \<Rightarrow> json \<Rightarrow> json option option" where
  "property key JNull = None"
| "property key (JObj props) = Some (map_of props key)"
| "property key v = Some None"

fun truthy_value :: "json option \<Rightarrow> bool" where
  "truthy_value None = False"
| "truthy_value (Some JNull) = False"
| "truthy_value (Some (JBool b)) = b"
| "truthy_value (Some (JNum n)) = (n \<noteq> 0)"
| "truthy_value (Some (JStr s)) = (s \<noteq> [])"
| "truthy_value (Some (JArr xs)) = True"
| "truthy_value (Some (JObj props)) = True"

text \<open>\<open>cat => cat.name && cat.bookmarks\<close>, as the truth value \<open>every\<close> reads.\<close>

definition has_name_and_bookmarks :: "json \<Rightarrow> bool option" where
  "has_name_and_bookmarks cat =
     (case property ''name'' cat of
        None \<Rightarrow> None
      | Some name \<Rightarrow>
          if truthy_value name
          then map_option truthy_value (property ''bookmarks'' cat)
          else Some False)"

text \<open>\<open>xs.every(p)\<close> stops at the first element that fails, and at a throw (\<open>None\<close>).\<close>

fun every :: "('a \<Rightarrow> bool option) \<Rightarrow> 'a list \<Rightarrow> bool option" where
  "every p [] = Some True"
| "every p (x # xs) =
     (case p x of None \<Rightarrow> None | Some b \<Rightarrow> if b then every p xs else Some False)"

text \<open>
  \<open>importData(jsonData)\<close> of the network-backed \<open>BookmarkManager\<close>. The argument
  \<open>parsed\<close> is the outcome of \<open>JSON.parse(jsonData)\<close>, \<open>None\<close> when it throws; every throw
  ends in the \<open>catch\<close>, which returns \<open>false\<close>.
\<close>

definition importData :: "json option \<Rightarrow> int \<Rightarrow> int \<Rightarrow> json app \<Rightarrow> bool \<times> json app" where
  "importData parsed t tu st =
     (case parsed of
        None \<Rightarrow> (False, st)
      | Some (JArr xs) \<Rightarrow>
          (case every has_name_and_bookmarks xs of
             Some True \<Rightarrow> (True, saveData t tu (st\<lparr>categories := JArr xs\<rparr>))
           | Some False \<Rightarrow> (False, st)
           | None \<Rightarrow> (False, st))
      | Some v \<Rightarrow> (False, st))"

text \<open>
  \<open>importData(jsonData)\<close> of the variant without Firebase, whose caller has parsed the
  file already. Nothing in its \<open>try\<close> block throws unless \<open>localStorage\<close> does, so its
  \<open>catch\<close>, which returns \<open>false\<close>, has no branch here.
\<close>

definition simple_importData :: "json \<Rightarrow> json simple_app \<Rightarrow> bool \<times> json simple_app" where
  "simple_importData jsonData st =
     (case jsonData of
        JArr xs \<Rightarrow> (True, simple_saveData (st\<lparr>s_data := JObj [(''categories'', JArr xs)]\<rparr>))
      | v \<Rightarrow> (True, simple_saveData (st\<lparr>s_data := v\<rparr>)))"

section \<open>Notions the properties are stated with\<close>

text \<open>
  The state the constructors build on an empty \<open>localStorage\<close>, given whether the page
  has the database handle, the content of the database, and the tree.
\<close>

definition new_app :: "bool \<Rightarrow> 'a firestore \<Rightarrow> 'a \<Rightarrow> 'a app" where
  "new_app handle db cats =
     \<lparr>firebaseDB = handle, firestore = db, ls_items = [], ls_trees = [], currentUser = None,
      userId = None,
      syncEnabled = False, lastSyncTime = None, unsubscribe = False, categories = cats,
      issued = []\<rparr>"

definition new_simple_app :: "'d \<Rightarrow> 'd simple_app" where
  "new_simple_app d = \<lparr>s_items = [], s_auth = [], s_trees = [], s_currentUser = None, s_data = d\<rparr>"

definition empty_firestore :: "'a firestore" where
  "empty_firestore = \<lparr>users = [], bookmarks = []\<rparr>"

text \<open>The key under which \<open>saveData\<close> writes the tree.\<close>

definition bookmarkData_key :: "'a app \<Rightarrow> string" where
  "bookmarkData_key st =
     ''bookmarkData_'' @ (case getItem ''userId'' (ls_items st) of None \<Rightarrow> ''null'' | Some u \<Rightarrow> u)"

text \<open>
  Every bookmark a read of the tree meets, in order, and the invariant that each of
  them lies in a category of the tree.
\<close>

definition all_bookmarks :: "category list \<Rightarrow> bookmark list" where
  "all_bookmarks cats = concat (map c_bookmarks cats)"

definition parent_exists :: "category list \<Rightarrow> bool" where
  "parent_exists cats = (\<forall>b \<in> set (all_bookmarks cats). \<exists>c \<in> set cats. b \<in> set (c_bookmarks c))"

text \<open>
  A match of a query in a text without regard to case: some piece of the text equals
  the query once both are in lower case.
\<close>

definition ci_substring :: "string \<Rightarrow> string \<Rightarrow> bool" where
  "ci_substring q s = (\<exists>pre w post. s = pre @ w @ post \<and> toLowerCase w = toLowerCase q)"

definition ci_match :: "string \<Rightarrow> bookmark \<Rightarrow> bool" where
  "ci_match q b =
     (ci_substring q (b_name b) \<or> ci_substring q (b_url b) \<or> ci_substring q (b_description b))"

text \<open>
  The elements \<open>importData\<close> lets through: objects whose \<open>name\<close> and \<open>bookmarks\<close> are both
  truthy.
\<close>

fun accepted :: "json \<Rightarrow> bool" where
  "accepted (JObj props) =
     (truthy_value (map_of props ''name'') \<and> truthy_value (map_of props ''bookmarks''))"
| "accepted v = False"

text \<open>
  The inputs the specification of the import describes as well formed: an object
  \<open>{categories: [...]}\<close> or a bare array, of objects that have a name and a sequence of
  bookmarks.
\<close>

fun spec_category :: "json \<Rightarrow> bool" where
  "spec_category (JObj props) =
     (map_of props ''name'' \<noteq> None
      \<and> (case map_of props ''bookmarks'' of Some (JArr bs) \<Rightarrow> True | _ \<Rightarrow> False))"
| "spec_category v = False"

fun spec_import_shape :: "json \<Rightarrow> bool" where
  "spec_import_shape (JArr xs) = list_all spec_category xs"
| "spec_import_shape (JObj props) =
     (case map_of props ''categories'' of
        Some (JArr xs) \<Rightarrow> list_all spec_category xs
      | _ \<Rightarrow> False)"
| "spec_import_shape v = False"

subsection \<open>Example states\<close>

definition hobby :: category where
  "hobby = \<lparr>c_id = ''c1'', c_name = ''Hobby'', c_color = ''#4CAF50'',
            c_bookmarks =
              [\<lparr>b_id = ''b1'', b_name = ''YouTube'', b_url = ''https://www.youtube.com'',
                b_description = ''Video''\<rparr>,
               \<lparr>b_id = ''b2'', b_name = ''Netflix'', b_url = ''https://www.netflix.com'',
                b_description = ''Streaming''\<rparr>]\<rparr>"

definition work :: category where
  "work = \<lparr>c_id = ''c2'', c_name = ''Work'', c_color = ''#FF5722'',
           c_bookmarks =
             [\<lparr>b_id = ''b3'', b_name = ''Slack'', b_url = ''https://slack.com'',
               b_description = ''Chat''\<rparr>]\<rparr>"

definition example_tree :: "category list" where
  "example_tree = [hobby, work]"

text \<open>A session that is logged in and not syncing, and the same session while syncing.\<close>

definition ready_app :: "category list app" where
  "ready_app =
     (new_app True empty_firestore example_tree)
       \<lparr>ls_items := [(''userId'', ''user_abc''), (''lastLocalChange'', ''150'')],
        userId := Some ''user_abc''\<rparr>"

definition syncing_app :: "category list app" where
  "syncing_app = ready_app\<lparr>syncEnabled := True, lastSyncTime := Some 100, unsubscribe := True\<rparr>"

definition newer_doc :: "category list cloud_doc" where
  "newer_doc = \<lparr>doc_categories = [work], lastModified = Some 200\<rparr>"

definition stale_doc :: "category list cloud_doc" where
  "stale_doc = \<lparr>doc_categories = [work], lastModified = Some 120\<rparr>"

text \<open>
  A syncing session whose last local change (at 50) is older than its last push (at
  100), and a notification between the two.
\<close>

definition pushed_app :: "category list app" where
  "pushed_app =
     syncing_app\<lparr>ls_items := [(''userId'', ''user_abc''), (''lastLocalChange'', ''50'')]\<rparr>"

definition own_doc :: "category list cloud_doc" where
  "own_doc = \<lparr>doc_categories = [work], lastModified = Some 80\<rparr>"

definition alice :: user_doc where
  "alice = \<lparr>username = ''alice'', passwordHash = rev ''secret'', createdAt = 1\<rparr>"

text \<open>
  A database that holds a record of the user \<open>alice\<close>, seen from a page that has the
  handle and from a page that has not.
\<close>

definition alice_db :: "category list firestore" where
  "alice_db = \<lparr>users = [(''user_alice'', alice)], bookmarks = []\<rparr>"

definition alice_app :: "category list app" where
  "alice_app = new_app True alice_db example_tree"

definition alice_offline_app :: "category list app" where
  "alice_offline_app = new_app False alice_db example_tree"

definition alice_simple_app :: "category list simple_app" where
  "alice_simple_app = (new_simple_app example_tree)\<lparr>s_auth := [(''auth_user_alice'', alice)]\<rparr>"

section \<open>Auxiliary facts\<close>

lemma getItem_setItem: "getItem k (setItem k v items) = Some v"
  by (simp add: getItem_def setItem_def)

lemma digit_value_char: "d < 10 \<Longrightarrow> digit_value (char_of (48 + d)) = Some (d :: nat)"
  by (simp add: digit_value_def)

lemma digits_all: "c \<in> set (digits n) \<Longrightarrow> \<exists>d :: nat. d < 10 \<and> c = char_of (48 + d)"
proof (induction n rule: digits.induct)
  case (1 n)
  show ?case
  proof (cases "n < 10")
    case True
    with 1 show ?thesis by (subst (asm) digits.simps) auto
  next
    case False
    with "1.prems" have "c \<in> set (digits (n div 10)) \<or> c = char_of (48 + n mod 10)"
      by (subst (asm) digits.simps) auto
    then show ?thesis
    proof
      assume "c \<in> set (digits (n div 10))"
      with 1 False show ?thesis by blast
    next
      assume "c = char_of (48 + n mod 10)"
      moreover have "n mod 10 < 10" by simp
      ultimately show ?thesis by blast
    qed
  qed
qed

lemma digits_value_snoc:
  "digits_value radix (s @ [c])
   = digits_value radix s * radix + (case digit_value c of None \<Rightarrow> 0 | Some d \<Rightarrow> d)"
  by (simp add: digits_value_def)

lemma digits_value_digits: "digits_value 10 (digits n) = n"
proof (induction n rule: digits.induct)
  case (1 n)
  show ?case
  proof (cases "n < 10")
    case True
    then have "digits n = [char_of (48 + n)]" by (subst digits.simps) simp
    with True show ?thesis by (simp add: digits_value_def digit_value_char)
  next
    case False
    then have d: "digits n = digits (n div 10) @ [char_of (48 + n mod 10)]"
      by (subst digits.simps) simp
    have "n mod 10 < 10" by simp
    then have "digit_value (char_of (48 + n mod 10)) = Some (n mod 10)" by (rule digit_value_char)
    with 1 False show ?thesis by (simp add: d digits_value_snoc)
  qed
qed

lemma digits_nonempty: "digits n \<noteq> []"
  by (subst digits.simps) simp

lemma digit_char_props:
  fixes d :: nat
  assumes "d < 10"
  shows "is_digit 10 (char_of (48 + d))" and "\<not> isWhiteSpace (char_of (48 + d))"
    and "char_of (48 + d) \<noteq> CHR ''-''" and "char_of (48 + d) \<noteq> CHR ''+''"
    and "char_of (48 + d) \<noteq> CHR ''x''" and "char_of (48 + d) \<noteq> CHR ''X''"
proof -
  have o: "of_char (char_of (48 + d)) = 48 + d" using assms by simp
  show "is_digit 10 (char_of (48 + d))" using assms by (simp add: is_digit_def digit_value_char)
  show "\<not> isWhiteSpace (char_of (48 + d))" using assms by (simp add: isWhiteSpace_def)
  have ne: "char_of (48 + d) \<noteq> c" if "of_char c \<noteq> 48 + d" for c :: char
    using that o by auto
  show "char_of (48 + d) \<noteq> CHR ''-''" "char_of (48 + d) \<noteq> CHR ''+''"
    "char_of (48 + d) \<noteq> CHR ''x''" "char_of (48 + d) \<noteq> CHR ''X''"
    using assms by (auto intro!: ne)
qed

lemma parse_magnitude_digits: "parse_magnitude (digits n) = to_double n"
proof -
  have all: "\<forall>c \<in> set (digits n). is_digit 10 c"
    using digits_all digit_char_props(1) by blast
  have nx: "\<not> prefix ''0x'' (digits n)" "\<not> prefix ''0X'' (digits n)"
  proof -
    have "CHR ''x'' \<notin> set (digits n)"
      using digits_all digit_char_props(5) by metis
    moreover have "CHR ''X'' \<notin> set (digits n)"
      using digits_all digit_char_props(6) by metis
    ultimately show "\<not> prefix ''0x'' (digits n)" "\<not> prefix ''0X'' (digits n)"
      by (auto simp: prefix_def)
  qed
  from all have tw: "takeWhile (is_digit 10) (digits n) = digits n"
    by (simp add: takeWhile_eq_all_conv)
  show ?thesis
    using nx digits_nonempty [of n] by (simp add: parse_magnitude_def tw digits_value_digits Let_def)
qed

lemma parseInt_digits: "parseInt (digits n) = to_double n"
proof -
  obtain c cs where d: "digits n = c # cs" using digits_nonempty [of n] by (cases "digits n") auto
  then have "c \<in> set (digits n)" by simp
  then obtain k :: nat where k: "k < 10" "c = char_of (48 + k)" using digits_all by blast
  from digit_char_props [OF k(1)] k(2)
  have p: "\<not> isWhiteSpace c" "c \<noteq> CHR ''-''" "c \<noteq> CHR ''+''" by simp_all
  have "parseInt (c # cs) = parse_magnitude (c # cs)"
    using p by (simp add: parseInt_def)
  then show ?thesis using parse_magnitude_digits [of n] by (simp add: d)
qed

text \<open>
  The text \<open>saveData\<close> writes for a time below \<open>2^53\<close> in size is read back by
  \<open>parseInt\<close> as that time.
\<close>

lemma parseInt_toString:
  assumes "\<bar>l\<bar> < 2 ^ 53"
  shows "parseInt (toString l) = Num l"
proof (cases "l < 0")
  case False
  with assms have "nat l < 2 ^ 53" by (simp add: nat_less_iff)
  with False show ?thesis by (simp add: toString_def parseInt_digits to_double_def)
next
  case True
  with assms have n: "nat (- l) < 2 ^ 53" by (simp add: nat_less_iff)
  have "parseInt (CHR ''-'' # digits (nat (- l))) = negate (parse_magnitude (digits (nat (- l))))"
    by (simp add: parseInt_def isWhiteSpace_def)
  with True n show ?thesis
    by (simp add: toString_def parse_magnitude_digits to_double_def)
qed

lemma toString_nonempty: "toString l \<noteq> []"
  by (simp add: toString_def digits_nonempty)

text \<open>Beyond \<open>2^53\<close> the text is read as the nearest double, here the even neighbour.\<close>

lemma parseInt_rounds:
  "parseInt ''9007199254740995'' = Num 9007199254740996"
  "parseInt ''9007199254740993'' = Num 9007199254740992"
  by (simp_all add: parseInt_def parse_magnitude_def isWhiteSpace_def is_digit_def digit_value_def
      digits_value_def to_double_def bit_length.simps Let_def)

lemma categories_start_upload: "categories (start_upload tu st) = categories st"
  by (simp add: start_upload_def split: option.splits)

lemma ls_start_upload:
  "ls_items (start_upload tu st) = ls_items st" "ls_trees (start_upload tu st) = ls_trees st"
  by (simp_all add: start_upload_def split: option.splits)

lemma categories_saveData: "categories (saveData t tu st) = categories st"
  by (simp add: saveData_def Let_def categories_start_upload)

lemma saveData_persists:
  "getItem (bookmarkData_key st) (ls_trees (saveData t tu st)) = Some (categories st)"
  "getItem ''lastLocalChange'' (ls_items (saveData t tu st)) = Some (toString t)"
  by (simp_all add: saveData_def Let_def ls_start_upload getItem_setItem bookmarkData_key_def)

lemma bookmarkData_key_categories:
  "bookmarkData_key (st\<lparr>categories := cats\<rparr>) = bookmarkData_key st"
  by (simp add: bookmarkData_key_def)

lemma s_data_simple_saveData: "s_data (simple_saveData st) = s_data st"
  by (simp add: simple_saveData_def split: option.splits)

lemma parent_exists_tree: "parent_exists cats"
  by (auto simp: parent_exists_def all_bookmarks_def)

lemma find_Some_props: "find p xs = Some x \<Longrightarrow> p x \<and> x \<in> set xs"
  by (auto simp: find_Some_iff)

lemma find_update_first:
  "find p xs = Some x \<Longrightarrow> p (f x) \<Longrightarrow> find p (update_first p f xs) = Some (f x)"
  by (induction xs) (auto split: if_splits)

lemma remove_first_mset:
  "find p xs = Some x \<Longrightarrow>
   mset (concat (map g (remove_first p xs))) + mset (g x) = mset (concat (map g xs))"
  by (induction xs) (auto simp: ac_simps)

lemma remove_first_distinct:
  "distinct (map h xs) \<Longrightarrow> find p xs = Some x \<Longrightarrow> h x \<notin> h ` set (remove_first p xs)"
proof (induction xs)
  case Nil
  then show ?case by simp
next
  case (Cons a xs)
  show ?case
  proof (cases "p a")
    case True
    with Cons.prems show ?thesis by auto
  next
    case False
    with Cons.prems have f: "find p xs = Some x" by simp
    then have "x \<in> set xs" by (auto simp: find_Some_iff)
    then have "h x \<in> h ` set xs" by (rule imageI)
    with Cons.prems have "h x \<noteq> h a" by auto
    with Cons False f show ?thesis by auto
  qed
qed

lemma remove_first_disjoint:
  "distinct (map h (concat (map g xs))) \<Longrightarrow> find p xs = Some x \<Longrightarrow>
   h ` set (g x) \<inter> h ` set (concat (map g (remove_first p xs))) = {}"
proof (induction xs)
  case Nil
  then show ?case by simp
next
  case (Cons a xs)
  show ?case
  proof (cases "p a")
    case True
    with Cons.prems show ?thesis by auto
  next
    case False
    with Cons.prems have f: "find p xs = Some x" by simp
    then have x: "x \<in> set xs" by (auto simp: find_Some_iff)
    from Cons.prems have d: "distinct (map h (concat (map g xs)))"
      and a: "h ` set (g a) \<inter> h ` set (concat (map g xs)) = {}" by auto
    from x have "set (g x) \<subseteq> set (concat (map g xs))" by auto
    then have "h ` set (g x) \<subseteq> h ` set (concat (map g xs))" by (rule image_mono)
    with a have "h ` set (g x) \<inter> h ` set (g a) = {}" by blast
    moreover from Cons.IH [OF d f]
    have "h ` set (g x) \<inter> h ` set (concat (map g (remove_first p xs))) = {}" .
    ultimately show ?thesis using False by (simp add: image_Un Int_Un_distrib)
  qed
qed

lemma ci_substring_includes [code]: "ci_substring q s = js_includes (toLowerCase s) (toLowerCase q)"
proof
  assume "ci_substring q s"
  then obtain pre w post where "s = pre @ w @ post" "toLowerCase w = toLowerCase q"
    by (auto simp: ci_substring_def)
  then have "toLowerCase s = toLowerCase pre @ toLowerCase q @ toLowerCase post"
    by (simp add: toLowerCase_def)
  then show "js_includes (toLowerCase s) (toLowerCase q)"
    unfolding js_includes_def sublist_def by blast
next
  assume "js_includes (toLowerCase s) (toLowerCase q)"
  then obtain ps ss where "map lower_unit s = ps @ (map lower_unit q @ ss)"
    unfolding js_includes_def sublist_def toLowerCase_def by blast
  then have "\<exists>us vs. s = us @ vs \<and> ps = map lower_unit us
               \<and> map lower_unit q @ ss = map lower_unit vs"
    by (simp only: map_eq_append_conv)
  then obtain pre rest where s: "s = pre @ rest"
    and r: "map lower_unit q @ ss = map lower_unit rest"
    by blast
  from r have "\<exists>us vs. rest = us @ vs \<and> map lower_unit q = map lower_unit us
                 \<and> ss = map lower_unit vs"
    by (simp only: append_eq_map_conv)
  then obtain w post where "rest = w @ post" and "map lower_unit w = map lower_unit q"
    by metis
  with s show "ci_substring q s"
    unfolding ci_substring_def toLowerCase_def by blast
qed

lemma dropWhile_all: "(\<forall>x \<in> set (dropWhile P xs). P x) \<longleftrightarrow> (\<forall>x \<in> set xs. P x)"
proof
  assume a: "\<forall>x \<in> set (dropWhile P xs). P x"
  have "dropWhile P xs = []"
  proof (rule ccontr)
    assume n: "dropWhile P xs \<noteq> []"
    then have "\<not> P (hd (dropWhile P xs))" by (rule hd_dropWhile)
    moreover from n have "hd (dropWhile P xs) \<in> set (dropWhile P xs)" by simp
    ultimately show False using a by blast
  qed
  then show "\<forall>x \<in> set xs. P x" by (simp add: dropWhile_eq_Nil_conv)
next
  assume "\<forall>x \<in> set xs. P x"
  then show "\<forall>x \<in> set (dropWhile P xs). P x" by (blast dest: set_dropWhileD)
qed

lemma trim_empty: "trim q = [] \<longleftrightarrow> (\<forall>c \<in> set q. isWhiteSpace c)"
  by (simp add: trim_def dropWhile_eq_Nil_conv dropWhile_all)

lemma matches_ci: "q \<noteq> [] \<Longrightarrow> matches (toLowerCase q) b = ci_match q b"
  by (auto simp: matches_def ci_match_def ci_substring_includes js_includes_def toLowerCase_def)

lemma filter_map_restrict:
  "filter (\<lambda>c. c_bookmarks c \<noteq> []) (map (\<lambda>c. c\<lparr>c_bookmarks := filter P (c_bookmarks c)\<rparr>) cats)
   = map (\<lambda>c. c\<lparr>c_bookmarks := filter P (c_bookmarks c)\<rparr>)
       (filter (\<lambda>c. \<exists>b \<in> set (c_bookmarks c). P b) cats)"
  by (induction cats) (auto simp: filter_empty_conv)

lemma has_name_and_bookmarks_accepted: "has_name_and_bookmarks x = Some True \<longleftrightarrow> accepted x"
  by (cases x) (auto simp: has_name_and_bookmarks_def)

lemma every_accepted: "every has_name_and_bookmarks xs = Some True \<longleftrightarrow> list_all accepted xs"
proof (induction xs)
  case Nil
  show ?case by simp
next
  case (Cons x xs)
  show ?case
  proof (cases "has_name_and_bookmarks x")
    case None
    then have "\<not> accepted x" using has_name_and_bookmarks_accepted [of x] by simp
    with None show ?thesis by simp
  next
    case (Some b)
    with Cons has_name_and_bookmarks_accepted [of x] show ?thesis by (cases b) auto
  qed
qed

section \<open>The remote-change handler\<close>

text \<open>
  C1. A notification that carries a document is applied exactly when its time stamp
  \<open>lastModified\<close> (0 when the field is missing) is greater than \<open>lastSyncTime\<close>, the
  time of the last push of this session (0 when there was none), and greater than the
  number that \<open>parseInt\<close> reads from the \<open>lastLocalChange\<close> kept in \<open>localStorage\<close>; so,
  when \<open>lastLocalChange\<close> holds the text of a time \<open>l\<close> as \<open>saveData\<close> writes it (a
  reading of \<open>Date.now()\<close>, below \<open>2^53\<close> in size), exactly when \<open>lastModified\<close> is
  greater than \<open>lastSyncTime\<close> and greater than \<open>l\<close>. When it is
  applied the remote categories become the tree, whatever the tree was, and
  \<open>saveData\<close> writes that tree and a new \<open>lastLocalChange\<close> to \<open>localStorage\<close>; in every
  other case, that of a notification without a document among them, the state, and
  with it the tree, stays as it was.
\<close>

theorem onSnapshot_applies_iff_newer:
  "onSnapshot (Some doc) t tu st =
     (if (case lastSyncTime st of None \<Rightarrow> 0 | Some s \<Rightarrow> s)
            < (case lastModified doc of None \<Rightarrow> 0 | Some m \<Rightarrow> m)
         \<and> greater_than (case lastModified doc of None \<Rightarrow> 0 | Some m \<Rightarrow> m)
              (parseInt (case getItem ''lastLocalChange'' (ls_items st) of
                           None \<Rightarrow> ''0''
                         | Some s \<Rightarrow> if s = [] then ''0'' else s))
      then saveData t tu (st\<lparr>categories := doc_categories doc\<rparr>) else st)
   \<and> (lastSyncTime st = Some s \<and> lastModified doc = Some m
        \<and> getItem ''lastLocalChange'' (ls_items st) = Some (toString l) \<and> \<bar>l\<bar> < 2 ^ 53
      \<longrightarrow> onSnapshot (Some doc) t tu st =
            (if s < m \<and> l < m then saveData t tu (st\<lparr>categories := doc_categories doc\<rparr>) else st))
   \<and> categories (saveData t tu (st\<lparr>categories := doc_categories doc\<rparr>)) = doc_categories doc
   \<and> getItem (bookmarkData_key st) (ls_trees (saveData t tu (st\<lparr>categories := doc_categories doc\<rparr>)))
       = Some (doc_categories doc)
   \<and> getItem ''lastLocalChange'' (ls_items (saveData t tu (st\<lparr>categories := doc_categories doc\<rparr>)))
       = Some (toString t)
   \<and> onSnapshot None t tu st = st"
proof (intro conjI impI)
  show "onSnapshot (Some doc) t tu st =
     (if (case lastSyncTime st of None \<Rightarrow> 0 | Some s \<Rightarrow> s)
            < (case lastModified doc of None \<Rightarrow> 0 | Some m \<Rightarrow> m)
         \<and> greater_than (case lastModified doc of None \<Rightarrow> 0 | Some m \<Rightarrow> m)
              (parseInt (case getItem ''lastLocalChange'' (ls_items st) of
                           None \<Rightarrow> ''0''
                         | Some s \<Rightarrow> if s = [] then ''0'' else s))
      then saveData t tu (st\<lparr>categories := doc_categories doc\<rparr>) else st)"
    by (simp add: onSnapshot_def Let_def not_le)
next
  assume a: "lastSyncTime st = Some s \<and> lastModified doc = Some m
        \<and> getItem ''lastLocalChange'' (ls_items st) = Some (toString l) \<and> \<bar>l\<bar> < 2 ^ 53"
  then have "parseInt (toString l) = Num l" by (simp add: parseInt_toString)
  with a show "onSnapshot (Some doc) t tu st =
            (if s < m \<and> l < m then saveData t tu (st\<lparr>categories := doc_categories doc\<rparr>) else st)"
    by (simp add: onSnapshot_def Let_def toString_nonempty not_le)
next
  show "categories (saveData t tu (st\<lparr>categories := doc_categories doc\<rparr>)) = doc_categories doc"
    by (simp add: categories_saveData)
  show "getItem (bookmarkData_key st) (ls_trees (saveData t tu (st\<lparr>categories := doc_categories doc\<rparr>)))
       = Some (doc_categories doc)"
    using saveData_persists(1) [where st = "st\<lparr>categories := doc_categories doc\<rparr>" and t = t and tu = tu]
    by (simp add: bookmarkData_key_categories)
  show "getItem ''lastLocalChange'' (ls_items (saveData t tu (st\<lparr>categories := doc_categories doc\<rparr>)))
       = Some (toString t)"
    by (rule saveData_persists(2))
  show "onSnapshot None t tu st = st"
    by (simp add: onSnapshot_def)
qed

lemma toString_examples: "toString 150 = ''150''" "toString 50 = ''50''"
  by code_simp+

text \<open>
  On \<open>syncing_app\<close> (last push at 100, last local change at 150) the notification of
  time 200 is applied and that of time 120, newer than the push and older than the
  local change, is not. On \<open>pushed_app\<close> (last local change at 50, last push at 100)
  the notification of time 80, newer than the local change, is dropped as the echo of
  the push.
\<close>

theorem onSnapshot_applies_iff_newer_witness:
  "categories (onSnapshot (Some newer_doc) 300 301 syncing_app) = [work]
   \<and> getItem ''bookmarkData_user_abc'' (ls_trees (onSnapshot (Some newer_doc) 300 301 syncing_app))
       = Some [work]
   \<and> onSnapshot (Some stale_doc) 300 301 syncing_app = syncing_app
   \<and> onSnapshot (Some own_doc) 300 301 pushed_app = pushed_app"
proof -
  have k: "bookmarkData_key syncing_app = ''bookmarkData_user_abc''"
    by (simp add: bookmarkData_key_def syncing_app_def ready_app_def getItem_def)
  have d: "lastModified newer_doc = Some 200" "doc_categories newer_doc = [work]"
    "lastModified stale_doc = Some 120" "lastModified own_doc = Some 80"
    by (simp_all add: newer_doc_def stale_doc_def own_doc_def)
  have a: "lastSyncTime syncing_app = Some 100"
    "getItem ''lastLocalChange'' (ls_items syncing_app) = Some (toString 150)"
    "lastSyncTime pushed_app = Some 100"
    "getItem ''lastLocalChange'' (ls_items pushed_app) = Some (toString 50)"
    by (simp_all add: pushed_app_def syncing_app_def ready_app_def getItem_def toString_examples)
  from onSnapshot_applies_iff_newer [where doc = newer_doc and t = 300 and tu = 301
      and st = syncing_app and s = 100 and m = 200 and l = 150]
  have 1: "onSnapshot (Some newer_doc) 300 301 syncing_app
             = saveData 300 301 (syncing_app\<lparr>categories := doc_categories newer_doc\<rparr>)"
    and 2: "categories (saveData 300 301 (syncing_app\<lparr>categories := doc_categories newer_doc\<rparr>)) = [work]"
    and 3: "getItem ''bookmarkData_user_abc''
              (ls_trees (saveData 300 301 (syncing_app\<lparr>categories := doc_categories newer_doc\<rparr>)))
             = Some [work]"
    using a d k by (simp_all add: toString_nonempty parseInt_toString)
  from onSnapshot_applies_iff_newer [where doc = stale_doc and t = 300 and tu = 301
      and st = syncing_app and s = 100 and m = 120 and l = 150]
  have 4: "onSnapshot (Some stale_doc) 300 301 syncing_app = syncing_app"
    using a d by (simp add: toString_nonempty parseInt_toString)
  from onSnapshot_applies_iff_newer [where doc = own_doc and t = 300 and tu = 301
      and st = pushed_app and s = 100 and m = 80 and l = 50]
  have 5: "onSnapshot (Some own_doc) 300 301 pushed_app = pushed_app"
    using a d by (simp add: toString_nonempty parseInt_toString)
  from 1 2 3 4 5 show ?thesis by simp
qed

section \<open>Enabling the synchronisation\<close>

text \<open>
  C9. In a session that is not syncing (the flag \<open>syncEnabled\<close> is unset and no listener
  is attached), with a database handle and a user id so that \<open>enableSync\<close> makes its
  push: when the push throws, \<open>enableSync\<close> returns \<open>false\<close> and the session is as it
  was, the flag unset; when the push succeeds, \<open>enableSync\<close> returns \<open>true\<close>, the flag is
  set, the time of the push is recorded and the listener is attached. Without a
  handle or a user id no push is made and the call returns \<open>false\<close>.
\<close>

theorem enableSync_outcome:
  assumes "\<not> syncEnabled st" and "\<not> unsubscribe st"
  shows "(firebaseDB st \<and> truthy (userId st) \<longrightarrow>
            enableSync False t1 t2 st = (False, st)
            \<and> fst (enableSync True t1 t2 st)
            \<and> syncEnabled (snd (enableSync True t1 t2 st))
            \<and> unsubscribe (snd (enableSync True t1 t2 st))
            \<and> lastSyncTime (snd (enableSync True t1 t2 st)) = Some t2)
       \<and> (\<not> firebaseDB st \<or> \<not> truthy (userId st) \<longrightarrow>
            enableSync push_ok t1 t2 st = (False, st))"
  using assms
  by (auto simp: enableSync_def uploadToCloud_def listenToChanges_def)

theorem enableSync_outcome_witness:
  "enableSync False 10 11 ready_app = (False, ready_app)
   \<and> fst (enableSync True 10 11 ready_app)
   \<and> syncEnabled (snd (enableSync True 10 11 ready_app))
   \<and> unsubscribe (snd (enableSync True 10 11 ready_app))
   \<and> lastSyncTime (snd (enableSync True 10 11 ready_app)) = Some 11
   \<and> enableSync True 10 11 (new_app False empty_firestore example_tree) = (False, new_app False empty_firestore example_tree)"
  using enableSync_outcome [where st = ready_app and ?t1.0 = 10 and ?t2.0 = 11]
    enableSync_outcome [where st = "new_app False empty_firestore example_tree" and ?t1.0 = 10 and ?t2.0 = 11
      and push_ok = True]
  by (simp add: ready_app_def new_app_def)

section \<open>Registration and login\<close>

text \<open>
  C6. \<open>register\<close>, in \<open>AuthManager\<close> and in \<open>SimpleAuthManager\<close>, fails with an error of
  the kind \<open>ValidationError\<close> when the user name or the password is empty, the user
  name has fewer than 3 characters or the password fewer than 4; the state after
  the failure is the state before it, so no user record was made and no session was
  set up.
\<close>

theorem register_rejects_short_input:
  assumes "name = [] \<or> password = [] \<or> length name < 3 \<or> length password < 4"
  shows "(\<exists>e. register hash name password t st = (Inl e, st) \<and> kind e = ValidationError)
       \<and> (\<exists>e. simple_register hash name password t st' = (Inl e, st') \<and> kind e = ValidationError)"
  using assms by (auto simp: register_def simple_register_def)

theorem register_rejects_short_input_witness:
  "kind (Error Msg_username_min3) = ValidationError
   \<and> register rev ''ab'' ''pw1'' 7 alice_app = (Inl (Error Msg_username_min3), alice_app)
   \<and> simple_register rev ''ab'' ''pw1'' 7 alice_simple_app
       = (Inl (Error Msg_username_min3), alice_simple_app)"
  using register_rejects_short_input [where name = "''ab''" and password = "''pw1''"
      and hash = rev and t = 7 and st = alice_app and st' = alice_simple_app]
  by (simp add: register_def simple_register_def)

text \<open>
  C7, as amended. With a user name of 3 characters or more and a password of 4 or
  more: \<open>register\<close> of \<open>AuthManager\<close>, when the page has the database handle and a
  record exists under the derived user id, fails with the error of the kind
  \<open>ConflictError\<close> and leaves the state, and so the record, as it was; without the
  handle it looks for no record and succeeds. \<open>register\<close> of \<open>SimpleAuthManager\<close> fails
  in that way whenever a record exists under the derived id. In particular a second
  registration, under a valid name with the same derived id, fails in that way after
  a first one, in \<open>AuthManager\<close> when the handle is present, in \<open>SimpleAuthManager\<close>
  always.
\<close>

theorem register_conflict:
  assumes "3 \<le> length name" and "4 \<le> length password"
  shows "(firebaseDB st \<and> getItem (generateUserId name) (users (firestore st)) = Some r
            \<longrightarrow> register hash name password t st = (Inl (Error Msg_username_taken), st))
       \<and> (firebaseDB st \<and> generateUserId name' = generateUserId name
            \<and> 3 \<le> length name' \<and> 4 \<le> length password'
            \<longrightarrow> register hash' name' password' t' (snd (register hash name password t st))
                  = (Inl (Error Msg_username_taken), snd (register hash name password t st)))
       \<and> (\<not> firebaseDB st
            \<longrightarrow> register hash name password t st
                  = (Inr (generateUserId name), store_session name (generateUserId name) st))
       \<and> (getItem (''auth_'' @ generateUserId name) (s_auth st') = Some r'
            \<longrightarrow> simple_register hash name password t st' = (Inl (Error Msg_username_taken), st'))
       \<and> (generateUserId name' = generateUserId name \<and> 3 \<le> length name' \<and> 4 \<le> length password'
            \<longrightarrow> simple_register hash' name' password' t' (snd (simple_register hash name password t st'))
                  = (Inl (Error Msg_username_taken), snd (simple_register hash name password t st')))
       \<and> kind (Error Msg_username_taken) = ConflictError"
proof -
  have ne: "name \<noteq> []" "password \<noteq> []" using assms by auto
  have a: "firebaseDB st \<and> getItem (generateUserId name) (users (firestore st)) = Some r
            \<longrightarrow> register hash name password t st = (Inl (Error Msg_username_taken), st)"
    using assms ne by (simp add: register_def Let_def)
  have b: "firebaseDB st \<and> generateUserId name' = generateUserId name
            \<and> 3 \<le> length name' \<and> 4 \<le> length password'
            \<longrightarrow> register hash' name' password' t' (snd (register hash name password t st))
                  = (Inl (Error Msg_username_taken), snd (register hash name password t st))"
  proof (intro impI, elim conjE)
    assume db: "firebaseDB st" and eq: "generateUserId name' = generateUserId name"
      and n': "3 \<le> length name'" and pw: "4 \<le> length password'"
    from n' pw have e': "name' \<noteq> []" "password' \<noteq> []" by auto
    show "register hash' name' password' t' (snd (register hash name password t st))
            = (Inl (Error Msg_username_taken), snd (register hash name password t st))"
      using assms ne n' e' pw db eq
      by (cases "getItem (generateUserId name) (users (firestore st))")
         (simp_all add: register_def Let_def store_session_def getItem_setItem)
  qed
  have o: "\<not> firebaseDB st
            \<longrightarrow> register hash name password t st
                  = (Inr (generateUserId name), store_session name (generateUserId name) st)"
    using assms ne by (simp add: register_def Let_def)
  have c: "getItem (''auth_'' @ generateUserId name) (s_auth st') = Some r'
            \<longrightarrow> simple_register hash name password t st' = (Inl (Error Msg_username_taken), st')"
    using assms ne by (simp add: simple_register_def Let_def)
  have d: "generateUserId name' = generateUserId name \<and> 3 \<le> length name' \<and> 4 \<le> length password'
            \<longrightarrow> simple_register hash' name' password' t' (snd (simple_register hash name password t st'))
                  = (Inl (Error Msg_username_taken), snd (simple_register hash name password t st'))"
  proof (intro impI, elim conjE)
    assume eq: "generateUserId name' = generateUserId name"
      and n': "3 \<le> length name'" and pw: "4 \<le> length password'"
    from n' pw have e': "name' \<noteq> []" "password' \<noteq> []" by auto
    show "simple_register hash' name' password' t' (snd (simple_register hash name password t st'))
            = (Inl (Error Msg_username_taken), snd (simple_register hash name password t st'))"
      using assms ne n' e' pw eq
      by (cases "getItem (''auth_'' @ generateUserId name) (s_auth st')")
         (simp_all add: simple_register_def Let_def getItem_setItem)
  qed
  from a b o c d show ?thesis by simp
qed

lemma generateUserId_examples:
  "generateUserId ''alice'' = ''user_alice''" "generateUserId ''bob'' = ''user_bob''"
  "generateUserId ''Bob'' = ''user_bob''"
  by code_simp+

lemma alice_records:
  "firebaseDB alice_app" "\<not> firebaseDB alice_offline_app"
  "firestore alice_app = alice_db" "firestore alice_offline_app = alice_db"
  "getItem ''user_alice'' (users alice_db) = Some alice"
  "getItem ''user_bob'' (users alice_db) = None"
  "getItem ''auth_user_alice'' (s_auth alice_simple_app) = Some alice"
  "getItem ''auth_user_bob'' (s_auth alice_simple_app) = None"
  by (simp_all add: alice_app_def alice_offline_app_def new_app_def alice_db_def
      getItem_def alice_simple_app_def new_simple_app_def)

theorem register_conflict_witness:
  "register rev ''alice'' ''pass1'' 7 alice_app = (Inl (Error Msg_username_taken), alice_app)
   \<and> fst (register rev ''bob'' ''pass1'' 7 alice_app) = Inr ''user_bob''
   \<and> fst (register rev ''Bob'' ''other'' 9 (snd (register rev ''bob'' ''pass1'' 7 alice_app)))
       = Inl (Error Msg_username_taken)
   \<and> fst (register rev ''alice'' ''pass1'' 7 alice_offline_app) = Inr ''user_alice''
   \<and> simple_register rev ''alice'' ''pass1'' 7 alice_simple_app
       = (Inl (Error Msg_username_taken), alice_simple_app)"
proof -
  have b: "fst (register rev ''bob'' ''pass1'' 7 alice_app) = Inr ''user_bob''"
    by (simp add: register_def alice_records generateUserId_examples Let_def)
  have e: "generateUserId ''Bob'' = generateUserId ''bob''"
    by (simp add: generateUserId_examples)
  from register_conflict [where name = "''alice''" and password = "''pass1''" and st = alice_app
      and r = alice and hash = rev and t = 7 and st' = alice_simple_app and r' = alice
      and name' = "''alice''" and password' = "''pass1''" and hash' = rev and t' = 7]
  have 1: "register rev ''alice'' ''pass1'' 7 alice_app = (Inl (Error Msg_username_taken), alice_app)"
    and 3: "simple_register rev ''alice'' ''pass1'' 7 alice_simple_app
              = (Inl (Error Msg_username_taken), alice_simple_app)"
    using alice_records by (simp_all add: generateUserId_examples)
  from register_conflict [where name = "''bob''" and password = "''pass1''" and st = alice_app
      and name' = "''Bob''" and password' = "''other''" and hash = rev and hash' = rev and t = 7
      and t' = 9 and r = alice and st' = alice_simple_app and r' = alice]
  have 2: "fst (register rev ''Bob'' ''other'' 9 (snd (register rev ''bob'' ''pass1'' 7 alice_app)))
             = Inl (Error Msg_username_taken)"
    using alice_records e by (simp add: generateUserId_examples)
  from register_conflict [where name = "''alice''" and password = "''pass1''" and st = alice_offline_app
      and r = alice and hash = rev and t = 7 and st' = alice_simple_app and r' = alice
      and name' = "''alice''" and password' = "''pass1''" and hash' = rev and t' = 7]
  have 4: "fst (register rev ''alice'' ''pass1'' 7 alice_offline_app) = Inr ''user_alice''"
    using alice_records by (simp add: generateUserId_examples)
  from 1 b 2 4 3 show ?thesis by simp
qed

text \<open>
  The claim C7 as it was stated fails in \<open>AuthManager\<close> on a page without the
  database handle: the database holds a record under the id derived from \<open>alice\<close>, and
  \<open>register\<close> of \<open>alice\<close> with a valid password succeeds all the same and starts a
  session.
\<close>

theorem register_offline_counterexample:
  "getItem (generateUserId ''alice'') (users (firestore alice_offline_app)) = Some alice
   \<and> 3 \<le> length ''alice'' \<and> 4 \<le> length ''pass1''
   \<and> register rev ''alice'' ''pass1'' 7 alice_offline_app
       = (Inr ''user_alice'', store_session ''alice'' ''user_alice'' alice_offline_app)"
  by (simp add: register_def alice_records generateUserId_examples Let_def)

text \<open>
  C8, as amended. With a user name and a password that are not empty, \<open>login\<close> fails
  in the same way whether no record exists under the derived user id or the digest of
  the password differs from the stored one: it throws the one error of the kind
  \<open>AuthError\<close>, with the one message of its class, and leaves the state as it was. The
  records of \<open>AuthManager\<close> are those of the collection \<open>users\<close>, which it reads when
  the database handle is present.
\<close>

theorem login_failures_indistinguishable:
  assumes "name \<noteq> []" and "password \<noteq> []"
  shows "(firebaseDB st \<and>
            (getItem (generateUserId name) (users (firestore st)) = None
             \<or> (\<exists>r. getItem (generateUserId name) (users (firestore st)) = Some r
                     \<and> passwordHash r \<noteq> hash password))
          \<longrightarrow> login hash name password st = (Inl (Error Msg_wrong_credentials), st))
       \<and> ((getItem (''auth_'' @ generateUserId name) (s_auth st') = None
             \<or> (\<exists>r. getItem (''auth_'' @ generateUserId name) (s_auth st') = Some r
                     \<and> passwordHash r \<noteq> hash password))
          \<longrightarrow> simple_login hash name password st' = (Inl (Error Msg_wrong_credentials_simple), st'))
       \<and> kind (Error Msg_wrong_credentials) = AuthError
       \<and> kind (Error Msg_wrong_credentials_simple) = AuthError"
  using assms
  by (auto simp: login_def simple_login_def Let_def)

theorem login_failures_indistinguishable_witness:
  "login rev ''alice'' ''wrong'' alice_app = (Inl (Error Msg_wrong_credentials), alice_app)
   \<and> login rev ''bob'' ''secret'' alice_app = (Inl (Error Msg_wrong_credentials), alice_app)
   \<and> simple_login rev ''alice'' ''wrong'' alice_simple_app
       = (Inl (Error Msg_wrong_credentials_simple), alice_simple_app)
   \<and> simple_login rev ''bob'' ''secret'' alice_simple_app
       = (Inl (Error Msg_wrong_credentials_simple), alice_simple_app)"
proof -
  have h: "passwordHash alice \<noteq> rev ''wrong''"
    by (simp add: alice_def)
  from login_failures_indistinguishable [where name = "''alice''" and password = "''wrong''"
      and st = alice_app and hash = rev and st' = alice_simple_app]
    login_failures_indistinguishable [where name = "''bob''" and password = "''secret''"
      and st = alice_app and hash = rev and st' = alice_simple_app]
  show ?thesis using alice_records h by (simp add: generateUserId_examples)
qed

text \<open>
  The claim C8 as it was stated, for every user name and password, fails when one of
  them is empty: \<open>login\<close> of a user with no record and the empty password throws the
  error that asks for a user name and a password, of the kind \<open>ValidationError\<close>, in
  both classes.
\<close>

theorem login_empty_password_counterexample:
  "firebaseDB alice_app
   \<and> getItem (generateUserId ''bob'') (users (firestore alice_app)) = None
   \<and> login rev ''bob'' [] alice_app = (Inl (Error Msg_enter_credentials), alice_app)
   \<and> getItem (''auth_'' @ generateUserId ''bob'') (s_auth alice_simple_app) = None
   \<and> simple_login rev ''bob'' [] alice_simple_app = (Inl (Error Msg_enter_credentials), alice_simple_app)
   \<and> kind (Error Msg_enter_credentials) = ValidationError"
  by (simp add: login_def simple_login_def alice_records generateUserId_examples)

text \<open>
  C10, as amended. In \<open>AuthManager\<close>, when the database handle is absent: for every
  user name and password that are not empty, \<open>login\<close> succeeds, returns the derived
  user id and stores the session, whatever the password: no record is read and no
  digest compared; and \<open>register\<close> succeeds in the same way, with no look for an
  existing user, for every user name of 3 characters or more and password of 4
  characters or more.
\<close>

theorem offline_login_and_register:
  assumes "\<not> firebaseDB st"
  shows "(name \<noteq> [] \<and> password \<noteq> [] \<longrightarrow>
            login hash name password st
              = (Inr (generateUserId name), store_session name (generateUserId name) st))
       \<and> (3 \<le> length name \<and> 4 \<le> length password \<longrightarrow>
            register hash name password t st
              = (Inr (generateUserId name), store_session name (generateUserId name) st))"
  using assms by (auto simp: login_def register_def Let_def)

theorem offline_login_and_register_witness:
  "login rev ''alice'' ''x'' alice_offline_app
     = (Inr ''user_alice'', store_session ''alice'' ''user_alice'' alice_offline_app)
   \<and> register rev ''bob'' ''pass1'' 7 alice_offline_app
     = (Inr ''user_bob'', store_session ''bob'' ''user_bob'' alice_offline_app)"
  using offline_login_and_register [where st = alice_offline_app and name = "''alice''"
      and password = "''x''" and hash = rev and t = 7]
    offline_login_and_register [where st = alice_offline_app and name = "''bob''"
      and password = "''pass1''" and hash = rev and t = 7]
  by (simp add: alice_records generateUserId_examples)

text \<open>
  The claim C10 as it was stated fails for \<open>register\<close>: with the handle absent, the
  user name \<open>ab\<close> and the password \<open>pass\<close>, neither empty, are refused.
\<close>

theorem offline_register_counterexample:
  "\<not> firebaseDB alice_offline_app \<and> ''ab'' \<noteq> [] \<and> ''pass'' \<noteq> []
   \<and> register rev ''ab'' ''pass'' 7 alice_offline_app
       = (Inl (Error Msg_username_min3), alice_offline_app)"
  by (simp add: register_def alice_records)

section \<open>The bookmark store\<close>

text \<open>
  C3, as amended. \<open>addBookmark\<close> of the network-backed \<open>BookmarkManager\<close>: when no
  category has the id, the result is absent and the state unchanged; otherwise the
  bookmark returned has the given url when that starts with \<open>http://\<close> or
  \<open>https://\<close>, and \<open>https://\<close> followed by the given url otherwise, and it is the last
  bookmark of the category. \<open>addBookmark\<close> of the variant without Firebase does the
  same except that it stores and returns the url as it was given.
\<close>

theorem addBookmark_url:
  "(find (\<lambda>c. c_id c = categoryId) (categories st) = None
      \<longrightarrow> addBookmark new_id categoryId name url description t tu st = (None, st))
   \<and> (find (\<lambda>c. c_id c = categoryId) (categories st) = Some c
      \<longrightarrow> (\<exists>b. fst (addBookmark new_id categoryId name url description t tu st) = Some b
             \<and> b_url b = (if startsWith url ''http://'' \<or> startsWith url ''https://''
                          then url else ''https://'' @ url)
             \<and> find (\<lambda>c. c_id c = categoryId)
                  (categories (snd (addBookmark new_id categoryId name url description t tu st)))
                 = Some (c\<lparr>c_bookmarks := c_bookmarks c @ [b]\<rparr>)))
   \<and> (find (\<lambda>c. c_id c = categoryId) (s_data st') = None
      \<longrightarrow> simple_addBookmark new_id categoryId name url description st' = (None, st'))
   \<and> (find (\<lambda>c. c_id c = categoryId) (s_data st') = Some c'
      \<longrightarrow> (\<exists>b. fst (simple_addBookmark new_id categoryId name url description st') = Some b
             \<and> b_url b = url
             \<and> find (\<lambda>c. c_id c = categoryId)
                  (s_data (snd (simple_addBookmark new_id categoryId name url description st')))
                 = Some (c'\<lparr>c_bookmarks := c_bookmarks c' @ [b]\<rparr>)))"
proof (intro conjI impI)
  assume "find (\<lambda>c. c_id c = categoryId) (categories st) = None"
  then show "addBookmark new_id categoryId name url description t tu st = (None, st)"
    by (simp add: addBookmark_def)
next
  assume f: "find (\<lambda>c. c_id c = categoryId) (categories st) = Some c"
  then have id: "c_id c = categoryId" by (auto simp: find_Some_iff)
  let ?b = "\<lparr>b_id = new_id, b_name = name, b_url = normalize_url url,
             b_description = or_empty description\<rparr>"
  have "find (\<lambda>c. c_id c = categoryId)
          (update_first (\<lambda>c. c_id c = categoryId) (\<lambda>c. c\<lparr>c_bookmarks := c_bookmarks c @ [?b]\<rparr>)
             (categories st)) = Some (c\<lparr>c_bookmarks := c_bookmarks c @ [?b]\<rparr>)"
    using f by (rule find_update_first) (simp add: id)
  with f show "\<exists>b. fst (addBookmark new_id categoryId name url description t tu st) = Some b
             \<and> b_url b = (if startsWith url ''http://'' \<or> startsWith url ''https://''
                          then url else ''https://'' @ url)
             \<and> find (\<lambda>c. c_id c = categoryId)
                  (categories (snd (addBookmark new_id categoryId name url description t tu st)))
                 = Some (c\<lparr>c_bookmarks := c_bookmarks c @ [b]\<rparr>)"
    by (simp add: addBookmark_def Let_def categories_saveData normalize_url_def)
next
  assume "find (\<lambda>c. c_id c = categoryId) (s_data st') = None"
  then show "simple_addBookmark new_id categoryId name url description st' = (None, st')"
    by (simp add: simple_addBookmark_def)
next
  assume f: "find (\<lambda>c. c_id c = categoryId) (s_data st') = Some c'"
  then have id: "c_id c' = categoryId" by (auto simp: find_Some_iff)
  let ?b = "\<lparr>b_id = new_id, b_name = name, b_url = url, b_description = or_empty description\<rparr>"
  have "find (\<lambda>c. c_id c = categoryId)
          (update_first (\<lambda>c. c_id c = categoryId) (\<lambda>c. c\<lparr>c_bookmarks := c_bookmarks c @ [?b]\<rparr>)
             (s_data st')) = Some (c'\<lparr>c_bookmarks := c_bookmarks c' @ [?b]\<rparr>)"
    using f by (rule find_update_first) (simp add: id)
  with f show "\<exists>b. fst (simple_addBookmark new_id categoryId name url description st') = Some b
             \<and> b_url b = url
             \<and> find (\<lambda>c. c_id c = categoryId)
                  (s_data (snd (simple_addBookmark new_id categoryId name url description st')))
                 = Some (c'\<lparr>c_bookmarks := c_bookmarks c' @ [b]\<rparr>)"
    by (simp add: simple_addBookmark_def Let_def s_data_simple_saveData)
qed

lemma find_example_tree:
  "find (\<lambda>c. c_id c = ''c2'') example_tree = Some work"
  "find (\<lambda>c. c_id c = ''c1'') example_tree = Some hobby"
  "find (\<lambda>c. c_id c = ''c9'') example_tree = None"
  by (simp_all add: example_tree_def hobby_def work_def)

theorem addBookmark_url_witness:
  "addBookmark ''b4'' ''c9'' ''Example'' ''example.com'' (Some []) 300 301 ready_app = (None, ready_app)
   \<and> map_option b_url (fst (addBookmark ''b4'' ''c2'' ''Example'' ''example.com'' (Some []) 300 301 ready_app))
       = Some ''https://example.com''
   \<and> map_option b_url (fst (addBookmark ''b4'' ''c2'' ''Example'' ''http://example.com'' (Some []) 300 301 ready_app))
       = Some ''http://example.com''
   \<and> simple_addBookmark ''b4'' ''c9'' ''Example'' ''example.com'' (Some []) alice_simple_app
       = (None, alice_simple_app)
   \<and> map_option b_url (fst (simple_addBookmark ''b4'' ''c2'' ''Example'' ''example.com'' (Some []) alice_simple_app))
       = Some ''example.com''"
proof -
  have c: "categories ready_app = example_tree" "s_data alice_simple_app = example_tree"
    by (simp_all add: ready_app_def new_app_def alice_simple_app_def new_simple_app_def)
  have p: "\<not> startsWith ''example.com'' ''http://''" "\<not> startsWith ''example.com'' ''https://''"
    "startsWith ''http://example.com'' ''http://''"
    by (simp_all add: startsWith_def)
  from addBookmark_url [where categoryId = "''c9''" and st = ready_app and st' = alice_simple_app
      and new_id = "''b4''" and name = "''Example''" and url = "''example.com''"
      and description = "Some []" and t = 300 and tu = 301 and c = work and c' = work]
  have 1: "addBookmark ''b4'' ''c9'' ''Example'' ''example.com'' (Some []) 300 301 ready_app = (None, ready_app)"
    and 4: "simple_addBookmark ''b4'' ''c9'' ''Example'' ''example.com'' (Some []) alice_simple_app
       = (None, alice_simple_app)"
    by (simp_all add: c find_example_tree)
  from addBookmark_url [where categoryId = "''c2''" and st = ready_app and st' = alice_simple_app
      and new_id = "''b4''" and name = "''Example''" and url = "''example.com''"
      and description = "Some []" and t = 300 and tu = 301 and c = work and c' = work]
  have 2: "map_option b_url (fst (addBookmark ''b4'' ''c2'' ''Example'' ''example.com'' (Some []) 300 301 ready_app))
       = Some ''https://example.com''"
    and 5: "map_option b_url (fst (simple_addBookmark ''b4'' ''c2'' ''Example'' ''example.com'' (Some []) alice_simple_app))
       = Some ''example.com''"
    by (auto simp: c find_example_tree p)
  from addBookmark_url [where categoryId = "''c2''" and st = ready_app and st' = alice_simple_app
      and new_id = "''b4''" and name = "''Example''" and url = "''http://example.com''"
      and description = "Some []" and t = 300 and tu = 301 and c = work and c' = work]
  have 3: "map_option b_url (fst (addBookmark ''b4'' ''c2'' ''Example'' ''http://example.com'' (Some []) 300 301 ready_app))
       = Some ''http://example.com''"
    by (auto simp: c find_example_tree p)
  from 1 2 3 4 5 show ?thesis by simp
qed

text \<open>
  The claim C3 as it was stated fails in the variant without Firebase: there
  \<open>addBookmark\<close> with the url \<open>example.com\<close> returns a bookmark whose url is
  \<open>example.com\<close>, with no scheme put before it.
\<close>

theorem simple_addBookmark_counterexample:
  "find (\<lambda>c. c_id c = ''c2'') (s_data alice_simple_app) = Some work
   \<and> \<not> startsWith ''example.com'' ''http://'' \<and> \<not> startsWith ''example.com'' ''https://''
   \<and> fst (simple_addBookmark ''b4'' ''c2'' ''Example'' ''example.com'' (Some []) alice_simple_app)
       = Some \<lparr>b_id = ''b4'', b_name = ''Example'', b_url = ''example.com'', b_description = []\<rparr>"
  by (simp add: simple_addBookmark_def alice_simple_app_def new_simple_app_def example_tree_def
      hobby_def work_def startsWith_def Let_def)

text \<open>
  C4. When the tree has a category with the id, \<open>deleteCategory\<close> returns \<open>true\<close> and
  the category it found, the first with the id, leaves the tree with all its
  bookmarks: the bookmarks that a read of the new tree meets are those of the old tree
  less those of that category, each counted as often as it occurs. So, the ids of the
  bookmarks being distinct, no bookmark of the category is met again, and, the ids of
  the categories being distinct, no category has the id any more; the copy in
  \<open>localStorage\<close> is the new tree. The bookmarks are
  kept only inside their categories, so that the invariant \<open>parent_exists\<close> holds after
  every operation of the store.
\<close>

theorem deleteCategory_no_orphans:
  assumes "find (\<lambda>c. c_id c = categoryId) (categories st) = Some c"
  shows "fst (deleteCategory categoryId t tu st)
   \<and> mset (all_bookmarks (categories (snd (deleteCategory categoryId t tu st)))) + mset (c_bookmarks c)
       = mset (all_bookmarks (categories st))
   \<and> (distinct (map b_id (all_bookmarks (categories st)))
        \<longrightarrow> (\<forall>b \<in> set (c_bookmarks c).
               b_id b \<notin> b_id ` set (all_bookmarks (categories (snd (deleteCategory categoryId t tu st))))))
   \<and> (distinct (map c_id (categories st))
        \<longrightarrow> find (\<lambda>c. c_id c = categoryId) (categories (snd (deleteCategory categoryId t tu st))) = None)
   \<and> getItem (bookmarkData_key st) (ls_trees (snd (deleteCategory categoryId t tu st)))
       = Some (categories (snd (deleteCategory categoryId t tu st)))
   \<and> (parent_exists (categories st) \<longrightarrow>
        parent_exists (categories (snd (deleteCategory categoryId t tu st)))
        \<and> parent_exists (categories (snd (addCategory new_id name color t tu st)))
        \<and> parent_exists (categories (snd (updateCategory cid name color t tu st)))
        \<and> parent_exists (categories (snd (addBookmark new_id cid name url description t tu st)))
        \<and> parent_exists (categories (snd (updateBookmark cid bid name url description t tu st)))
        \<and> parent_exists (categories (snd (deleteBookmark cid bid t tu st))))"
proof -
  let ?p = "\<lambda>c. c_id c = categoryId"
  let ?cats' = "remove_first ?p (categories st)"
  have res: "deleteCategory categoryId t tu st = (True, saveData t tu (st\<lparr>categories := ?cats'\<rparr>))"
    using assms by (simp add: deleteCategory_def)
  have cats: "categories (snd (deleteCategory categoryId t tu st)) = ?cats'"
    by (simp add: res categories_saveData)
  have m: "mset (all_bookmarks ?cats') + mset (c_bookmarks c) = mset (all_bookmarks (categories st))"
    unfolding all_bookmarks_def using assms by (rule remove_first_mset)
  have d: "\<forall>b \<in> set (c_bookmarks c). b_id b \<notin> b_id ` set (all_bookmarks ?cats')"
    if dist: "distinct (map b_id (all_bookmarks (categories st)))"
  proof -
    from dist have "distinct (map b_id (concat (map c_bookmarks (categories st))))"
      by (simp only: all_bookmarks_def)
    from remove_first_disjoint [OF this assms]
    have "b_id ` set (c_bookmarks c) \<inter> b_id ` set (all_bookmarks ?cats') = {}"
      unfolding all_bookmarks_def .
    then show ?thesis by blast
  qed
  have e: "find ?p ?cats' = None" if "distinct (map c_id (categories st))"
  proof -
    from remove_first_distinct [OF that assms]
    have "c_id c \<notin> c_id ` set ?cats'" .
    moreover have "c_id c = categoryId" using find_Some_props [OF assms] by simp
    ultimately show ?thesis unfolding find_None_iff by (metis imageI)
  qed
  have p: "getItem (bookmarkData_key st) (ls_trees (snd (deleteCategory categoryId t tu st))) = Some ?cats'"
    using saveData_persists(1) [where st = "st\<lparr>categories := ?cats'\<rparr>" and t = t and tu = tu]
    by (simp add: res bookmarkData_key_categories)
  show ?thesis
  proof (intro conjI impI)
    show "fst (deleteCategory categoryId t tu st)" by (simp add: res)
    show "mset (all_bookmarks (categories (snd (deleteCategory categoryId t tu st)))) + mset (c_bookmarks c)
            = mset (all_bookmarks (categories st))"
      unfolding cats by (rule m)
    show "\<forall>b \<in> set (c_bookmarks c).
            b_id b \<notin> b_id ` set (all_bookmarks (categories (snd (deleteCategory categoryId t tu st))))"
      if "distinct (map b_id (all_bookmarks (categories st)))"
      unfolding cats using that by (rule d)
    show "find (\<lambda>c. c_id c = categoryId) (categories (snd (deleteCategory categoryId t tu st))) = None"
      if "distinct (map c_id (categories st))"
      unfolding cats using that by (rule e)
    show "getItem (bookmarkData_key st) (ls_trees (snd (deleteCategory categoryId t tu st)))
            = Some (categories (snd (deleteCategory categoryId t tu st)))"
      unfolding cats by (rule p)
  qed (rule parent_exists_tree)+
qed

lemma example_tree_distinct:
  "distinct (map b_id (all_bookmarks example_tree))" "distinct (map c_id example_tree)"
  by (simp_all add: all_bookmarks_def example_tree_def hobby_def work_def)

theorem deleteCategory_no_orphans_witness:
  "fst (deleteCategory ''c1'' 300 301 ready_app)
   \<and> ''b1'' \<notin> b_id ` set (all_bookmarks (categories (snd (deleteCategory ''c1'' 300 301 ready_app))))
   \<and> ''b2'' \<notin> b_id ` set (all_bookmarks (categories (snd (deleteCategory ''c1'' 300 301 ready_app))))
   \<and> find (\<lambda>c. c_id c = ''c1'') (categories (snd (deleteCategory ''c1'' 300 301 ready_app))) = None
   \<and> parent_exists (categories (snd (deleteCategory ''c1'' 300 301 ready_app)))"
proof -
  have c: "categories ready_app = example_tree"
    by (simp add: ready_app_def new_app_def)
  have b: "c_bookmarks hobby
           = [\<lparr>b_id = ''b1'', b_name = ''YouTube'', b_url = ''https://www.youtube.com'',
                b_description = ''Video''\<rparr>,
              \<lparr>b_id = ''b2'', b_name = ''Netflix'', b_url = ''https://www.netflix.com'',
                b_description = ''Streaming''\<rparr>]"
    by (simp add: hobby_def)
  from deleteCategory_no_orphans [where categoryId = "''c1''" and st = ready_app and c = hobby
      and t = 300 and tu = 301 and new_id = "''c3''" and name = "''News''" and color = "''#000000''"
      and cid = "''c2''" and bid = "''b3''" and url = "''example.com''" and description = None]
  show ?thesis
    using parent_exists_tree [of example_tree]
    by (simp add: c b find_example_tree example_tree_distinct)
qed

text \<open>
  C5. \<open>searchBookmarks\<close> leaves the state as it was. A query that is empty or made
  of white space only returns the whole tree. Any other query returns, in their
  order, the categories that have a bookmark whose name, url or description contains
  the query without regard to case, each with just those of its bookmarks.
\<close>

theorem searchBookmarks_result:
  "snd (searchBookmarks query st) = st
   \<and> ((\<forall>c \<in> set query. isWhiteSpace c) \<longrightarrow> fst (searchBookmarks query st) = categories st)
   \<and> (\<not> (\<forall>c \<in> set query. isWhiteSpace c) \<longrightarrow>
        fst (searchBookmarks query st)
          = map (\<lambda>c. c\<lparr>c_bookmarks := filter (ci_match query) (c_bookmarks c)\<rparr>)
              (filter (\<lambda>c. \<exists>b \<in> set (c_bookmarks c). ci_match query b) (categories st)))"
proof (intro conjI impI)
  show "snd (searchBookmarks query st) = st"
    by (simp add: searchBookmarks_def Let_def)
next
  assume "\<forall>c \<in> set query. isWhiteSpace c"
  then show "fst (searchBookmarks query st) = categories st"
    by (simp add: searchBookmarks_def trim_empty)
next
  assume ne: "\<not> (\<forall>c \<in> set query. isWhiteSpace c)"
  then have q: "query \<noteq> []" by auto
  have m: "matches (toLowerCase query) = ci_match query"
    using matches_ci [OF q] by (rule ext)
  from ne have "trim query \<noteq> []" by (simp add: trim_empty)
  then show "fst (searchBookmarks query st)
          = map (\<lambda>c. c\<lparr>c_bookmarks := filter (ci_match query) (c_bookmarks c)\<rparr>)
              (filter (\<lambda>c. \<exists>b \<in> set (c_bookmarks c). ci_match query b) (categories st))"
    by (simp add: searchBookmarks_def Let_def m filter_map_restrict)
qed

lemma search_example:
  "map (\<lambda>c. c\<lparr>c_bookmarks := filter (ci_match ''YOU'') (c_bookmarks c)\<rparr>)
     (filter (\<lambda>c. \<exists>b \<in> set (c_bookmarks c). ci_match ''YOU'' b) example_tree)
   = [hobby\<lparr>c_bookmarks := [\<lparr>b_id = ''b1'', b_name = ''YouTube'',
        b_url = ''https://www.youtube.com'', b_description = ''Video''\<rparr>]\<rparr>]"
  "map (\<lambda>c. c\<lparr>c_bookmarks := filter (ci_match ''nomatch_xyz'') (c_bookmarks c)\<rparr>)
     (filter (\<lambda>c. \<exists>b \<in> set (c_bookmarks c). ci_match ''nomatch_xyz'' b) example_tree)
   = []"
  by code_simp+

theorem searchBookmarks_result_witness:
  "searchBookmarks ''  '' ready_app = (example_tree, ready_app)
   \<and> searchBookmarks ''YOU'' ready_app
       = ([hobby\<lparr>c_bookmarks := [\<lparr>b_id = ''b1'', b_name = ''YouTube'',
             b_url = ''https://www.youtube.com'', b_description = ''Video''\<rparr>]\<rparr>], ready_app)
   \<and> searchBookmarks ''nomatch_xyz'' ready_app = ([], ready_app)"
proof -
  have c: "categories ready_app = example_tree"
    by (simp add: ready_app_def new_app_def)
  have w: "\<forall>c \<in> set ''  ''. isWhiteSpace c" "\<not> (\<forall>c \<in> set ''YOU''. isWhiteSpace c)"
    "\<not> (\<forall>c \<in> set ''nomatch_xyz''. isWhiteSpace c)"
    by (simp_all add: isWhiteSpace_def)
  from searchBookmarks_result [where query = "''  ''" and st = ready_app]
    searchBookmarks_result [where query = "''YOU''" and st = ready_app]
    searchBookmarks_result [where query = "''nomatch_xyz''" and st = ready_app]
  show ?thesis
    using w by (simp add: c search_example prod_eq_iff)
qed

section \<open>Import\<close>

text \<open>
  C2, as amended. \<open>importData\<close> of the network-backed \<open>BookmarkManager\<close> replaces the
  tree and returns \<open>true\<close> exactly when the text parses to an array whose elements
  are all objects with a truthy \<open>name\<close> and a truthy \<open>bookmarks\<close>; for every other input,
  an object \<open>{categories: [...]}\<close> and a text that does not parse among them, it returns
  \<open>false\<close> without raising and leaves the state as it was. \<open>importData\<close> of the variant
  without Firebase checks nothing: for every value it returns \<open>true\<close> and replaces
  \<open>this.data\<close>, by \<open>{categories: value}\<close> when the value is an array and by the value
  itself otherwise.
\<close>

theorem importData_accepts:
  "(list_all accepted xs \<longrightarrow>
      importData (Some (JArr xs)) t tu st = (True, saveData t tu (st\<lparr>categories := JArr xs\<rparr>))
      \<and> categories (snd (importData (Some (JArr xs)) t tu st)) = JArr xs)
   \<and> (\<not> (\<exists>ys. parsed = Some (JArr ys) \<and> list_all accepted ys) \<longrightarrow>
        importData parsed t tu st = (False, st))
   \<and> fst (simple_importData jsonData st') = True
   \<and> s_data (snd (simple_importData jsonData st'))
       = (case jsonData of JArr ys \<Rightarrow> JObj [(''categories'', JArr ys)] | v \<Rightarrow> v)"
proof (intro conjI impI)
  assume a: "list_all accepted xs"
  then have e: "every has_name_and_bookmarks xs = Some True" by (simp only: every_accepted)
  show "importData (Some (JArr xs)) t tu st = (True, saveData t tu (st\<lparr>categories := JArr xs\<rparr>))"
    by (simp add: importData_def e)
  then show "categories (snd (importData (Some (JArr xs)) t tu st)) = JArr xs"
    by (simp add: categories_saveData)
next
  assume n: "\<not> (\<exists>ys. parsed = Some (JArr ys) \<and> list_all accepted ys)"
  show "importData parsed t tu st = (False, st)"
  proof (cases parsed)
    case None
    then show ?thesis by (simp add: importData_def)
  next
    case (Some v)
    show ?thesis
    proof (cases v)
      case (JArr ys)
      with Some n have "every has_name_and_bookmarks ys \<noteq> Some True"
        by (simp add: every_accepted)
      with Some JArr show ?thesis
        by (cases "every has_name_and_bookmarks ys") (auto simp: importData_def)
    qed (simp_all add: Some importData_def)
  qed
next
  show "fst (simple_importData jsonData st') = True"
    by (cases jsonData) (simp_all add: simple_importData_def)
  show "s_data (snd (simple_importData jsonData st'))
       = (case jsonData of JArr ys \<Rightarrow> JObj [(''categories'', JArr ys)] | v \<Rightarrow> v)"
    by (cases jsonData) (simp_all add: simple_importData_def s_data_simple_saveData)
qed

theorem importData_accepts_witness:
  "fst (importData (Some (JArr [JObj [(''name'', JStr ''Hobby''), (''bookmarks'', JArr [])]])) 300 301
          (new_app False empty_firestore (JArr [])))
   \<and> categories (snd (importData (Some (JArr [JObj [(''name'', JStr ''Hobby''), (''bookmarks'', JArr [])]]))
          300 301 (new_app False empty_firestore (JArr []))))
       = JArr [JObj [(''name'', JStr ''Hobby''), (''bookmarks'', JArr [])]]
   \<and> importData (Some (JArr [JObj [(''name'', JStr []), (''bookmarks'', JArr [])]])) 300 301
          (new_app False empty_firestore (JArr [])) = (False, new_app False empty_firestore (JArr []))
   \<and> importData None 300 301 (new_app False empty_firestore (JArr [])) = (False, new_app False empty_firestore (JArr []))
   \<and> fst (simple_importData JNull (new_simple_app (JObj [(''categories'', JArr [])])))
   \<and> s_data (snd (simple_importData JNull (new_simple_app (JObj [(''categories'', JArr [])])))) = JNull"
  using importData_accepts [where xs = "[JObj [(''name'', JStr ''Hobby''), (''bookmarks'', JArr [])]]"
      and t = 300 and tu = 301 and st = "new_app False empty_firestore (JArr [])"
      and parsed = "Some (JArr [JObj [(''name'', JStr []), (''bookmarks'', JArr [])]])"
      and jsonData = JNull and st' = "new_simple_app (JObj [(''categories'', JArr [])])"]
    importData_accepts [where xs = "[JObj [(''name'', JStr ''Hobby''), (''bookmarks'', JArr [])]]"
      and t = 300 and tu = 301 and st = "new_app False empty_firestore (JArr [])"
      and parsed = None
      and jsonData = JNull and st' = "new_simple_app (JObj [(''categories'', JArr [])])"]
  by simp

text \<open>
  The claim C2 as it was stated fails in both classes. The network-backed \<open>importData\<close>
  refuses the object \<open>{categories: []}\<close>, which has the first of the two shapes, and
  takes an array whose element has a number for its bookmarks; the \<open>importData\<close> of the
  variant without Firebase takes the number 5, returns \<open>true\<close> and makes it
  \<open>this.data\<close>.
\<close>

theorem importData_counterexample:
  "spec_import_shape (JObj [(''categories'', JArr [])])
   \<and> importData (Some (JObj [(''categories'', JArr [])])) 300 301 (new_app False empty_firestore (JArr []))
       = (False, new_app False empty_firestore (JArr []))
   \<and> \<not> spec_import_shape (JArr [JObj [(''name'', JStr ''Hobby''), (''bookmarks'', JNum 1)]])
   \<and> fst (importData (Some (JArr [JObj [(''name'', JStr ''Hobby''), (''bookmarks'', JNum 1)]])) 300 301
            (new_app False empty_firestore (JArr [])))
   \<and> \<not> spec_import_shape (JNum 5)
   \<and> simple_importData (JNum 5) (new_simple_app (JObj [(''categories'', JArr [])]))
       = (True, new_simple_app (JNum 5))"
  by (simp add: importData_def simple_importData_def simple_saveData_def new_simple_app_def
      getItem_def has_name_and_bookmarks_def)

end
